theory Spec2Isabelle
  imports Main
begin

section \<open>Data model of the ingest wizard (cmd/cli/cmd/datarepo.go)\<close>

text \<open>
  A Go \<open>error\<close> value is observed through its dynamic type and its message. The errors
  the wizard creates itself come from \<open>errors.New\<close> and \<open>fmt.Errorf\<close> (without a wrapping
  verb), which both build a \<open>*errors.errorString\<close>. A nil error is \<open>None\<close> of
  \<open>error option\<close>; a call returning \<open>(value, error)\<close> is a sum, \<open>Inl\<close> the error.
\<close>

datatype error = GoError (dyn_type: string) (message: string)

definition errors_New :: "string \<Rightarrow> error" where
  "errors_New s = GoError ''*errors.errorString'' s"

text \<open>
  \<open>selectPromptData\<close> is declared in another file of the package; the three string
  fields are the ones the composite literals of datarepo.go set.
\<close>

record selectPromptData =
  Name :: string
  Value :: string
  Description :: string

text \<open>
  The identifiers of package \<open>ingest\<close> are string constants whose values are not part
  of datarepo.go. They are parameters of the model.
\<close>

record ingest_constants =
  DataformatIDIndividualFiles :: string
  DataformatIDCSVFiles :: string
  DataformatIDDatabaseTable :: string
  DatasourceIDLocalDirectory :: string
  DatasourceIDAWSS3 :: string
  CSVDelimiterCommas :: string
  CSVDelimiterTabs :: string

text \<open>
  \<open>ingest.ManifestConfig\<close> is an interface; datarepo.go stores a pointer to a
  \<open>CSVFilesFormatConfig\<close> or to an \<open>AWSS3LocationConfig\<close> in it, and the zero manifest
  holds nil.
\<close>

datatype ManifestConfig =
    NilConfig
  | CSVFilesFormatConfig string bool
  | AWSS3LocationConfig string string

record IngestManifest =
  selectedDatasourceType :: selectPromptData
  DatasourceFormatConfig :: ManifestConfig
  selectedDatasourceLocation :: selectPromptData
  DatasourceLocationConfig :: ManifestConfig

definition zero_selectPromptData :: selectPromptData where
  "zero_selectPromptData = \<lparr>Name = [], Value = [], Description = []\<rparr>"

definition zero_IngestManifest :: IngestManifest where
  "zero_IngestManifest =
     \<lparr>selectedDatasourceType = zero_selectPromptData, DatasourceFormatConfig = NilConfig,
      selectedDatasourceLocation = zero_selectPromptData, DatasourceLocationConfig = NilConfig\<rparr>"

subsection \<open>The selector constants and tables\<close>

definition SchemaEditorTutorialBlurb :: string where
  \<open>SchemaEditorTutorialBlurb =
     ''# This editor lets you make manual modifications to your field types to help Daft ingest your data.'' @ [CHR 0x0A] @
     ''#'' @ [CHR 0x0A] @
     ''# Daft types and what they mean:'' @ [CHR 0x0A] @
     ''#'' @ [CHR 0x0A] @
     ''#     "string": A simple string'' @ [CHR 0x0A] @
     ''#     "uri/s3": A URL to S3 that starts with s3://...'' @ [CHR 0x0A] @
     ''#     "uri/http": A URL to a HTTP resource that can be retrieved with a GET request'' @ [CHR 0x0A] @
     ''#'' @ [CHR 0x0A] @
     [CHR 0x0A] @
     [CHR 0x0A]\<close>

definition IndividualBinaryFilesSelector :: "ingest_constants \<Rightarrow> selectPromptData" where
  "IndividualBinaryFilesSelector c =
     \<lparr>Name = ''Files (WIP)'',
      Value = DataformatIDIndividualFiles c,
      Description = ''Individual files on disk or in object storage.''\<rparr>"

definition CommaSeparatedValuesFilesSelector :: "ingest_constants \<Rightarrow> selectPromptData" where
  "CommaSeparatedValuesFilesSelector c =
     \<lparr>Name = ''CSV Files'',
      Value = DataformatIDCSVFiles c,
      Description = ''Comma-separated value files on disk or in object storage. Other delimiters such as tabs are also supported.''\<rparr>"

definition DatabaseTableSelector :: "ingest_constants \<Rightarrow> selectPromptData" where
  "DatabaseTableSelector c =
     \<lparr>Name = ''Database Table (WIP)'',
      Value = DataformatIDDatabaseTable c,
      Description = ''A database table from databases such as PostgreSQL, Snowflake or BigQuery.''\<rparr>"

definition LocalDirectorySelector :: "ingest_constants \<Rightarrow> selectPromptData" where
  "LocalDirectorySelector c =
     \<lparr>Name = ''Local Directory (WIP)'',
      Value = DatasourceIDLocalDirectory c,
      Description = ''A directory on your current machine's local filesystem.''\<rparr>"

definition AWSS3Selector :: "ingest_constants \<Rightarrow> selectPromptData" where
  "AWSS3Selector c =
     \<lparr>Name = ''AWS S3'',
      Value = DatasourceIDAWSS3 c,
      Description = ''An AWS S3 Bucket and prefix, indicating a collection of AWS S3 objects.''\<rparr>"

definition CommasSelector :: "ingest_constants \<Rightarrow> selectPromptData" where
  "CommasSelector c =
     \<lparr>Name = ''Commas: ,'',
      Value = CSVDelimiterCommas c,
      Description = ''The most common type of delimiter in CSV files.''\<rparr>"

definition TabsSelector :: "ingest_constants \<Rightarrow> selectPromptData" where
  "TabsSelector c =
     \<lparr>Name = ''Tabs: '' @ [CHR 0x5C] @ ''t'',
      Value = CSVDelimiterTabs c,
      Description = ''Values in each column are separated by a tab.''\<rparr>"

definition locationSelectors :: "ingest_constants \<Rightarrow> selectPromptData list" where
  "locationSelectors c = [AWSS3Selector c, LocalDirectorySelector c]"

text \<open>
  The map literal: its keys are not constant expressions, so Go fills the map entry by
  entry and a later entry replaces an earlier one with the same key, as map update does.
\<close>

definition allowedSelectors :: "ingest_constants \<Rightarrow> string \<rightharpoonup> selectPromptData list" where
  "allowedSelectors c =
     [Value (AWSS3Selector c) \<mapsto>
        [CommaSeparatedValuesFilesSelector c, IndividualBinaryFilesSelector c],
      Value (LocalDirectorySelector c) \<mapsto>
        [CommaSeparatedValuesFilesSelector c, IndividualBinaryFilesSelector c]]"

text \<open>Indexing a Go map at a missing key gives the zero value, here the nil slice.\<close>

definition allowedSelectors_index :: "ingest_constants \<Rightarrow> string \<Rightarrow> selectPromptData list" where
  "allowedSelectors_index c k = (case allowedSelectors c k of None \<Rightarrow> [] | Some l \<Rightarrow> l)"

definition csvDelimiterSelectors :: "ingest_constants \<Rightarrow> selectPromptData list" where
  "csvDelimiterSelectors c = [CommasSelector c, TabsSelector c]"

text \<open>The verb \<open>%s\<close> applied to a struct of string fields prints them in braces.\<close>

definition format_s :: "selectPromptData \<Rightarrow> string" where
  "format_s p = ''{'' @ Name p @ '' '' @ Value p @ '' '' @ Description p @ ''}''"

section \<open>Collaborators and the trace of a run\<close>

text \<open>
  The prompt engine, the sampler, the preview renderer and the YAML library are not
  part of datarepo.go. They are parameters: every call is recorded in the trace with
  the arguments it received, and a call with effects answers from the trace so far and
  its arguments. The type variables stand for the sampler, the sampled schema and
  \<open>schema.SchemaField\<close>.
\<close>

datatype ('smp, 'sch) event =
    EvPrintln string
  | EvSelectPrompt string string "selectPromptData list"
  | EvBoolPrompt string
  | EvTextPrompt string
  | EvEditorPrompt string string
  | EvSamplerFactory ManifestConfig ManifestConfig
  | EvSampleSchema 'smp
  | EvPreviewSamples 'sch 'smp

record ('smp, 'sch, 'fld) collaborators =
  SelectPrompt :: "('smp, 'sch) event list \<Rightarrow> string \<Rightarrow> string \<Rightarrow> selectPromptData list
                     \<Rightarrow> error + selectPromptData"
  BoolPrompt :: "('smp, 'sch) event list \<Rightarrow> string \<Rightarrow> error + bool"
  TextPrompt :: "('smp, 'sch) event list \<Rightarrow> string \<Rightarrow> error + string"
  EditorPrompt :: "('smp, 'sch) event list \<Rightarrow> string \<Rightarrow> string \<Rightarrow> error + string"
  SamplerFactory :: "('smp, 'sch) event list \<Rightarrow> ManifestConfig \<Rightarrow> ManifestConfig \<Rightarrow> error + 'smp"
  SampleSchema :: "('smp, 'sch) event list \<Rightarrow> 'smp \<Rightarrow> error + 'sch"
  PreviewSamples :: "('smp, 'sch) event list \<Rightarrow> 'sch \<Rightarrow> 'smp \<Rightarrow> error + string"
  yaml_Marshal_manifest :: "IngestManifest \<Rightarrow> error + string"
  yaml_Marshal_schema :: "'sch \<Rightarrow> error + string"
  yaml_Unmarshal :: "string \<Rightarrow> error + 'fld"

definition call_Println :: "string \<Rightarrow> ('smp, 'sch) event list \<Rightarrow> ('smp, 'sch) event list" where
  "call_Println s t = t @ [EvPrintln s]"

definition call_SelectPrompt ::
  "('smp, 'sch, 'fld) collaborators \<Rightarrow> string \<Rightarrow> string \<Rightarrow> selectPromptData list
     \<Rightarrow> ('smp, 'sch) event list \<Rightarrow> (error + selectPromptData) \<times> ('smp, 'sch) event list" where
  "call_SelectPrompt E title help opts t =
     (SelectPrompt E t title help opts, t @ [EvSelectPrompt title help opts])"

definition call_BoolPrompt ::
  "('smp, 'sch, 'fld) collaborators \<Rightarrow> string
     \<Rightarrow> ('smp, 'sch) event list \<Rightarrow> (error + bool) \<times> ('smp, 'sch) event list" where
  "call_BoolPrompt E q t = (BoolPrompt E t q, t @ [EvBoolPrompt q])"

definition call_TextPrompt ::
  "('smp, 'sch, 'fld) collaborators \<Rightarrow> string
     \<Rightarrow> ('smp, 'sch) event list \<Rightarrow> (error + string) \<times> ('smp, 'sch) event list" where
  "call_TextPrompt E label t = (TextPrompt E t label, t @ [EvTextPrompt label])"

definition call_EditorPrompt ::
  "('smp, 'sch, 'fld) collaborators \<Rightarrow> string \<Rightarrow> string
     \<Rightarrow> ('smp, 'sch) event list \<Rightarrow> (error + string) \<times> ('smp, 'sch) event list" where
  "call_EditorPrompt E text hint t = (EditorPrompt E t text hint, t @ [EvEditorPrompt text hint])"

definition call_SamplerFactory ::
  "('smp, 'sch, 'fld) collaborators \<Rightarrow> ManifestConfig \<Rightarrow> ManifestConfig
     \<Rightarrow> ('smp, 'sch) event list \<Rightarrow> (error + 'smp) \<times> ('smp, 'sch) event list" where
  "call_SamplerFactory E fc lc t = (SamplerFactory E t fc lc, t @ [EvSamplerFactory fc lc])"

definition call_SampleSchema ::
  "('smp, 'sch, 'fld) collaborators \<Rightarrow> 'smp
     \<Rightarrow> ('smp, 'sch) event list \<Rightarrow> (error + 'sch) \<times> ('smp, 'sch) event list" where
  "call_SampleSchema E s t = (SampleSchema E t s, t @ [EvSampleSchema s])"

definition call_PreviewSamples ::
  "('smp, 'sch, 'fld) collaborators \<Rightarrow> 'sch \<Rightarrow> 'smp
     \<Rightarrow> ('smp, 'sch) event list \<Rightarrow> (error + string) \<times> ('smp, 'sch) event list" where
  "call_PreviewSamples E sc s t = (PreviewSamples E t sc s, t @ [EvPreviewSamples sc s])"

section \<open>The steps of the wizard\<close>

type_synonym ('smp, 'sch) trace = "('smp, 'sch) event list"

definition NewCSVFilesFormatConfigFromPrompts ::
  "('smp, 'sch, 'fld) collaborators \<Rightarrow> ingest_constants \<Rightarrow> ('smp, 'sch) trace
     \<Rightarrow> (error + ManifestConfig) \<times> ('smp, 'sch) trace" where
  "NewCSVFilesFormatConfigFromPrompts E c t =
     (case call_SelectPrompt E ''Delimiter''
             ''Columns in each file are delimited by this character''
             (csvDelimiterSelectors c) t of
        (Inl err, t1) \<Rightarrow> (Inl err, t1)
      | (Inr result, t1) \<Rightarrow>
          (case call_BoolPrompt E ''CSV files contain header row'' t1 of
             (Inl err, t2) \<Rightarrow> (Inl err, t2)
           | (Inr headerResult, t2) \<Rightarrow>
               (Inr (CSVFilesFormatConfig (Value result) headerResult), t2)))"

definition NewAWSS3LocationConfigFromPrompts ::
  "('smp, 'sch, 'fld) collaborators \<Rightarrow> ('smp, 'sch) trace
     \<Rightarrow> (error + ManifestConfig) \<times> ('smp, 'sch) trace" where
  "NewAWSS3LocationConfigFromPrompts E t =
     (case call_TextPrompt E ''AWS S3 Bucket'' t of
        (Inl err, t1) \<Rightarrow> (Inl err, t1)
      | (Inr bucket, t1) \<Rightarrow>
          (case call_TextPrompt E ''AWS S3 Prefix'' t1 of
             (Inl err, t2) \<Rightarrow> (Inl err, t2)
           | (Inr prefix, t2) \<Rightarrow> (Inr (AWSS3LocationConfig bucket prefix), t2)))"

text \<open>
  The \<open>switch result.Value\<close> of \<open>buildDatasourceFormatConfig\<close>: the cases are tried
  in the order written and compare the value field only.
\<close>

datatype format_case =
  CaseIndividualBinaryFiles | CaseCommaSeparatedValuesFiles | CaseDatabaseTable | CaseFormatDefault

definition format_switch :: "ingest_constants \<Rightarrow> string \<Rightarrow> format_case" where
  "format_switch c v =
     (if v = Value (IndividualBinaryFilesSelector c) then CaseIndividualBinaryFiles
      else if v = Value (CommaSeparatedValuesFilesSelector c) then CaseCommaSeparatedValuesFiles
      else if v = Value (DatabaseTableSelector c) then CaseDatabaseTable
      else CaseFormatDefault)"

definition buildDatasourceFormatConfig ::
  "('smp, 'sch, 'fld) collaborators \<Rightarrow> ingest_constants \<Rightarrow> IngestManifest \<Rightarrow> ('smp, 'sch) trace
     \<Rightarrow> error option \<times> IngestManifest \<times> ('smp, 'sch) trace" where
  "buildDatasourceFormatConfig E c manifest t =
     (let selectors = allowedSelectors_index c (Value (selectedDatasourceLocation manifest)) in
      case call_SelectPrompt E ''Data format'' ''Choose how your data is laid out.'' selectors t of
        (Inl err, t1) \<Rightarrow> (Some err, manifest, t1)
      | (Inr result, t1) \<Rightarrow>
          (case format_switch c (Value result) of
             CaseIndividualBinaryFiles \<Rightarrow>
               (Some (errors_New ''individual binary files not yet supported''), manifest, t1)
           | CaseCommaSeparatedValuesFiles \<Rightarrow>
               (case NewCSVFilesFormatConfigFromPrompts E c t1 of
                  (Inl err, t2) \<Rightarrow> (Some err, manifest, t2)
                | (Inr config, t2) \<Rightarrow>
                    (None,
                     manifest\<lparr>selectedDatasourceType := result, DatasourceFormatConfig := config\<rparr>,
                     t2))
           | CaseDatabaseTable \<Rightarrow>
               (Some (errors_New ''database tables not yet supported''), manifest, t1)
           | CaseFormatDefault \<Rightarrow>
               (Some (errors_New (''datasource type '' @ format_s result @ '' not supported'')),
                manifest, t1)))"

text \<open>
  The \<open>switch location\<close> of \<open>buildDatasourceLocationConfigForSelectedLocation\<close>
  compares the whole struct with each selector, in the order written.
\<close>

datatype location_case = CaseLocalDirectory | CaseAWSS3 | CaseLocationDefault

definition location_switch :: "ingest_constants \<Rightarrow> selectPromptData \<Rightarrow> location_case" where
  "location_switch c location =
     (if location = LocalDirectorySelector c then CaseLocalDirectory
      else if location = AWSS3Selector c then CaseAWSS3
      else CaseLocationDefault)"

definition buildDatasourceLocationConfigForSelectedLocation ::
  "('smp, 'sch, 'fld) collaborators \<Rightarrow> ingest_constants \<Rightarrow> selectPromptData \<Rightarrow> ('smp, 'sch) trace
     \<Rightarrow> (error + ManifestConfig) \<times> ('smp, 'sch) trace" where
  "buildDatasourceLocationConfigForSelectedLocation E c location t =
     (case location_switch c location of
        CaseLocalDirectory \<Rightarrow> (Inl (errors_New ''local directories not yet supported''), t)
      | CaseAWSS3 \<Rightarrow>
          (case NewAWSS3LocationConfigFromPrompts E t of
             (Inl err, t1) \<Rightarrow> (Inl err, t1)
           | (Inr config, t1) \<Rightarrow> (Inr config, t1))
      | CaseLocationDefault \<Rightarrow>
          (Inl (errors_New (''datasource location '' @ format_s location @ '' not supported'')), t))"

definition buildDatasourceLocationConfig ::
  "('smp, 'sch, 'fld) collaborators \<Rightarrow> ingest_constants \<Rightarrow> IngestManifest \<Rightarrow> ('smp, 'sch) trace
     \<Rightarrow> error option \<times> IngestManifest \<times> ('smp, 'sch) trace" where
  "buildDatasourceLocationConfig E c manifest t =
     (case call_SelectPrompt E ''Data Source'' ''Specify the source for importing data from.''
             (locationSelectors c) t of
        (Inl err, t1) \<Rightarrow> (Some err, manifest, t1)
      | (Inr result, t1) \<Rightarrow>
          (case buildDatasourceLocationConfigForSelectedLocation E c result t1 of
             (Inl err, t2) \<Rightarrow> (Some err, manifest, t2)
           | (Inr config, t2) \<Rightarrow>
               (None,
                manifest\<lparr>selectedDatasourceLocation := result, DatasourceLocationConfig := config\<rparr>,
                t2)))"

definition confirmDatasourceConfigs ::
  "('smp, 'sch, 'fld) collaborators \<Rightarrow> IngestManifest \<Rightarrow> ('smp, 'sch) trace
     \<Rightarrow> error option \<times> IngestManifest \<times> ('smp, 'sch) trace" where
  "confirmDatasourceConfigs E manifest t =
     (case yaml_Marshal_manifest E manifest of
        Inl err \<Rightarrow> (Some err, manifest, t)
      | Inr y \<Rightarrow>
          (let t1 = call_Println ''Data Source Configurations:'' t;
               t2 = call_Println [] t1;
               t3 = call_Println y t2 in
           case call_BoolPrompt E ''Confirm and detect schema'' t3 of
             (Inl err, t4) \<Rightarrow> (Some err, manifest, t4)
           | (Inr result, t4) \<Rightarrow>
               if \<not> result
               then (Some (errors_New ''user cancelled data source configurations''), manifest, t4)
               else (None, manifest, t4)))"

definition buildDatarepoSchema ::
  "('smp, 'sch, 'fld) collaborators \<Rightarrow> IngestManifest \<Rightarrow> ('smp, 'sch) trace
     \<Rightarrow> error option \<times> IngestManifest \<times> ('smp, 'sch) trace" where
  "buildDatarepoSchema E manifest t =
     (case call_SamplerFactory E (DatasourceFormatConfig manifest)
             (DatasourceLocationConfig manifest) t of
        (Inl err, t1) \<Rightarrow> (Some err, manifest, t1)
      | (Inr sampler, t1) \<Rightarrow>
     (case call_SampleSchema E sampler t1 of
        (Inl err, t2) \<Rightarrow> (Some err, manifest, t2)
      | (Inr sampledSchema, t2) \<Rightarrow>
     (case call_PreviewSamples E sampledSchema sampler t2 of
        (Inl err, t3) \<Rightarrow> (Some err, manifest, t3)
      | (Inr tablePreview, t3) \<Rightarrow>
     (case yaml_Marshal_schema E sampledSchema of
        Inl err \<Rightarrow> (Some err, manifest, t3)
      | Inr yamlSchema \<Rightarrow>
     (case call_EditorPrompt E (SchemaEditorTutorialBlurb @ tablePreview @ yamlSchema) ''yaml'' t3 of
        (Inl err, t4) \<Rightarrow> (Some err, manifest, t4)
      | (Inr finalizedSchemaStr, t4) \<Rightarrow>
     (case yaml_Unmarshal E finalizedSchemaStr of
        Inl err \<Rightarrow> (Some err, manifest, t4)
      | Inr recordField \<Rightarrow>
          (let t5 = call_Println ''Final Schema:'' t4;
               t6 = call_Println finalizedSchemaStr t5 in
           case call_BoolPrompt E ''Confirm finalized schema'' t6 of
             (Inl err, t7) \<Rightarrow> (Some err, manifest, t7)
           | (Inr confirmSchema, t7) \<Rightarrow>
               if \<not> confirmSchema
               then (Some (errors_New ''aborted finalizing schema''), manifest, t7)
               else (None, manifest, t7))))))))"

text \<open>
  The \<open>Run\<close> function of \<open>ingestCmd\<close>. \<open>cobra.CheckErr\<close> returns on a nil error and
  otherwise reports the error and exits the process, so the run ends there: the result
  is the error the process exits with (\<open>None\<close> when \<open>Run\<close> returns) and the trace of
  everything that happened.
\<close>

definition Run ::
  "('smp, 'sch, 'fld) collaborators \<Rightarrow> ingest_constants \<Rightarrow> ('smp, 'sch) trace
     \<Rightarrow> error option \<times> ('smp, 'sch) trace" where
  "Run E c t =
     (let t0 = call_Println [] t;
          manifest = zero_IngestManifest in
      case buildDatasourceLocationConfig E c manifest t0 of
        (Some err, manifest1, t1) \<Rightarrow> (Some err, t1)
      | (None, manifest1, t1) \<Rightarrow>
     (case buildDatasourceFormatConfig E c manifest1 t1 of
        (Some err, manifest2, t2) \<Rightarrow> (Some err, t2)
      | (None, manifest2, t2) \<Rightarrow>
     (case confirmDatasourceConfigs E manifest2 t2 of
        (Some err, manifest3, t3) \<Rightarrow> (Some err, t3)
      | (None, manifest3, t3) \<Rightarrow>
     (case buildDatarepoSchema E manifest3 t3 of
        (Some err, manifest4, t4) \<Rightarrow> (Some err, t4)
      | (None, manifest4, t4) \<Rightarrow> (None, t4)))))"

section \<open>Observations on a trace\<close>

text \<open>The option lists of the single-choice prompts shown under a given title, in order.\<close>

fun shown_options :: "string \<Rightarrow> ('smp, 'sch) event list \<Rightarrow> selectPromptData list list" where
  "shown_options title [] = []"
| "shown_options title (EvSelectPrompt ti help opts # es) =
     (if ti = title then opts # shown_options title es else shown_options title es)"
| "shown_options title (e # es) = shown_options title es"

text \<open>The calls that reach the sampling collaborator (factory, sampling, preview).\<close>

fun is_sampling :: "('smp, 'sch) event \<Rightarrow> bool" where
  "is_sampling (EvSamplerFactory fc lc) = True"
| "is_sampling (EvSampleSchema s) = True"
| "is_sampling (EvPreviewSamples sc s) = True"
| "is_sampling e = False"

text \<open>
  Sequential composition of steps on one manifest: the steps run in list order, a step
  runs only when all before it returned a nil error, and the first error ends the run
  and is the result.
\<close>

fun run_steps ::
  "(IngestManifest \<Rightarrow> ('smp, 'sch) trace \<Rightarrow> error option \<times> IngestManifest \<times> ('smp, 'sch) trace) list
     \<Rightarrow> IngestManifest \<Rightarrow> ('smp, 'sch) trace \<Rightarrow> error option \<times> ('smp, 'sch) trace" where
  "run_steps [] manifest t = (None, t)"
| "run_steps (step # steps) manifest t =
     (case step manifest t of
        (Some err, manifest', t') \<Rightarrow> (Some err, t')
      | (None, manifest', t') \<Rightarrow> run_steps steps manifest' t')"

section \<open>An example environment\<close>

text \<open>
  Concrete values for the parameters, used to instantiate the theorems: identifiers
  for package \<open>ingest\<close>, and collaborators that answer as a user who picks AWS S3 and
  CSV files with comma delimiter and a header row, bucket \<open>my-bucket\<close>, prefix
  \<open>data/\<close>, leaves the schema text as proposed and confirms everything. Sampler and
  schemas are strings here.
\<close>

definition example_constants :: ingest_constants where
  "example_constants =
     \<lparr>DataformatIDIndividualFiles = ''individual_files'',
      DataformatIDCSVFiles = ''csv_files'',
      DataformatIDDatabaseTable = ''database_table'',
      DatasourceIDLocalDirectory = ''local_directory'',
      DatasourceIDAWSS3 = ''aws_s3'',
      CSVDelimiterCommas = '','',
      CSVDelimiterTabs = ''tab''\<rparr>"

definition example_collaborators :: "(string, string, string) collaborators" where
  "example_collaborators =
     \<lparr>SelectPrompt = (\<lambda>t title help opts.
        if title = ''Data Source'' then Inr (AWSS3Selector example_constants)
        else if title = ''Data format'' then Inr (CommaSeparatedValuesFilesSelector example_constants)
        else Inr (CommasSelector example_constants)),
      BoolPrompt = (\<lambda>t q. Inr True),
      TextPrompt = (\<lambda>t label. if label = ''AWS S3 Bucket'' then Inr ''my-bucket'' else Inr ''data/''),
      EditorPrompt = (\<lambda>t text hint. Inr text),
      SamplerFactory = (\<lambda>t fc lc. Inr ''sampler''),
      SampleSchema = (\<lambda>t s. Inr ''schema''),
      PreviewSamples = (\<lambda>t sc s. Inr ''preview''),
      yaml_Marshal_manifest = (\<lambda>m. Inr ''manifest.yaml''),
      yaml_Marshal_schema = (\<lambda>sc. Inr ''schema.yaml''),
      yaml_Unmarshal = (\<lambda>s. Inr s)\<rparr>"

definition example_manifest :: IngestManifest where
  "example_manifest =
     zero_IngestManifest\<lparr>selectedDatasourceLocation := AWSS3Selector example_constants,
                          DatasourceLocationConfig := AWSS3LocationConfig ''my-bucket'' ''data/''\<rparr>"

text \<open>Variations of the example: other answers, and collaborators that fail.\<close>

definition user_picks_individual_files :: "(string, string, string) collaborators" where
  "user_picks_individual_files =
     example_collaborators\<lparr>SelectPrompt :=
       \<lambda>t title help opts. Inr (IndividualBinaryFilesSelector example_constants)\<rparr>"

definition user_picks_local_directory :: "(string, string, string) collaborators" where
  "user_picks_local_directory =
     example_collaborators\<lparr>SelectPrompt :=
       \<lambda>t title help opts. Inr (LocalDirectorySelector example_constants)\<rparr>"

definition interrupted_select_prompt :: "(string, string, string) collaborators" where
  "interrupted_select_prompt =
     example_collaborators\<lparr>SelectPrompt := \<lambda>t title help opts. Inl (errors_New ''^C'')\<rparr>"

definition unparsable_edit :: "(string, string, string) collaborators" where
  "unparsable_edit =
     example_collaborators\<lparr>yaml_Unmarshal :=
       \<lambda>s. Inl (GoError ''*yaml.TypeError'' ''yaml: unmarshal errors'')\<rparr>"

definition user_answers_no :: "(string, string, string) collaborators" where
  "user_answers_no = example_collaborators\<lparr>BoolPrompt := \<lambda>t q. Inr False\<rparr>"

definition bool_prompt_fails_as_cancelled :: "(string, string, string) collaborators" where
  "bool_prompt_fails_as_cancelled =
     example_collaborators\<lparr>BoolPrompt :=
       \<lambda>t q. Inl (errors_New ''user cancelled data source configurations'')\<rparr>"


definition interrupted_prompts :: "(string, string, string) collaborators" where
  "interrupted_prompts =
     example_collaborators\<lparr>SelectPrompt := \<lambda>t title help opts. Inl (errors_New ''^C''),
                           BoolPrompt := \<lambda>t q. Inl (errors_New ''^C'')\<rparr>"

section \<open>Auxiliary facts\<close>

lemmas call_defs = call_Println_def call_SelectPrompt_def call_BoolPrompt_def call_TextPrompt_def
  call_EditorPrompt_def call_SamplerFactory_def call_SampleSchema_def call_PreviewSamples_def

lemmas selector_defs = IndividualBinaryFilesSelector_def CommaSeparatedValuesFilesSelector_def
  DatabaseTableSelector_def LocalDirectorySelector_def AWSS3Selector_def CommasSelector_def TabsSelector_def

lemma shown_options_append:
  "shown_options title (xs @ ys) = shown_options title xs @ shown_options title ys"
  by (induction title xs rule: shown_options.induct) simp_all

lemma csv_builder_shows_no_format_prompt:
  "shown_options ''Data format'' (snd (NewCSVFilesFormatConfigFromPrompts E c t)) =
     shown_options ''Data format'' t"
  by (simp add: NewCSVFilesFormatConfigFromPrompts_def call_defs shown_options_append split: sum.splits)

lemma csv_builder_extends_trace:
  "\<exists>evs. snd (NewCSVFilesFormatConfigFromPrompts E c t) = t @ evs"
  by (simp add: NewCSVFilesFormatConfigFromPrompts_def call_defs split: sum.splits)

lemma format_step_trace:
  "\<exists>evs. snd (snd (buildDatasourceFormatConfig E c manifest t)) =
     (t @ [EvSelectPrompt ''Data format'' ''Choose how your data is laid out.''
            (allowedSelectors_index c (Value (selectedDatasourceLocation manifest)))]) @ evs
     \<and> shown_options ''Data format'' evs = []"
proof -
  let ?ev = "EvSelectPrompt ''Data format'' ''Choose how your data is laid out.''
            (allowedSelectors_index c (Value (selectedDatasourceLocation manifest)))"
  obtain evs where evs: "snd (NewCSVFilesFormatConfigFromPrompts E c (t @ [?ev])) = (t @ [?ev]) @ evs"
    using csv_builder_extends_trace by blast
  have "shown_options ''Data format'' ((t @ [?ev]) @ evs) = shown_options ''Data format'' (t @ [?ev])"
    using csv_builder_shows_no_format_prompt[of E c "t @ [?ev]"] evs by simp
  then have none: "shown_options ''Data format'' evs = []"
    by (simp add: shown_options_append)
  show ?thesis
  proof (cases "SelectPrompt E t ''Data format'' ''Choose how your data is laid out.''
            (allowedSelectors_index c (Value (selectedDatasourceLocation manifest)))")
    case (Inl err)
    then show ?thesis
      by (simp add: buildDatasourceFormatConfig_def call_SelectPrompt_def)
  next
    case (Inr result)
    then show ?thesis
      using evs none
      by (cases "format_switch c (Value result)")
         (auto simp add: buildDatasourceFormatConfig_def call_SelectPrompt_def split: prod.splits sum.splits)
  qed
qed

lemmas step_defs = buildDatasourceLocationConfig_def buildDatasourceLocationConfigForSelectedLocation_def
  NewAWSS3LocationConfigFromPrompts_def buildDatasourceFormatConfig_def
  NewCSVFilesFormatConfigFromPrompts_def confirmDatasourceConfigs_def buildDatarepoSchema_def
  location_switch_def format_switch_def allowedSelectors_index_def allowedSelectors_def
  locationSelectors_def csvDelimiterSelectors_def

lemmas example_defs = example_constants_def example_collaborators_def example_manifest_def
  zero_IngestManifest_def zero_selectPromptData_def

lemma format_step_error_keeps_manifest:
  "fst (buildDatasourceFormatConfig E c manifest t) = Some e \<Longrightarrow>
     fst (snd (buildDatasourceFormatConfig E c manifest t)) = manifest"
  by (auto simp add: buildDatasourceFormatConfig_def call_SelectPrompt_def Let_def
        split: sum.splits prod.splits format_case.splits)

lemma location_step_error_keeps_manifest:
  "fst (buildDatasourceLocationConfig E c manifest t) = Some e \<Longrightarrow>
     fst (snd (buildDatasourceLocationConfig E c manifest t)) = manifest"
  by (auto simp add: buildDatasourceLocationConfig_def call_SelectPrompt_def
        split: sum.splits prod.splits)

lemma Run_after_confirm:
  assumes "buildDatasourceLocationConfig E c zero_IngestManifest (call_Println [] t0) = (None, m1, tr1)"
    and "buildDatasourceFormatConfig E c m1 tr1 = (None, m2, tr2)"
    and "confirmDatasourceConfigs E m2 tr2 = (None, manifest, t)"
  shows "Run E c t0 = (fst (buildDatarepoSchema E manifest t),
                       snd (snd (buildDatarepoSchema E manifest t)))"
  using assms by (simp add: Run_def split: prod.splits option.splits)

lemma location_step_shows_no_final_prompt:
  "count_list (snd (snd (buildDatasourceLocationConfig E c manifest t)))
     (EvBoolPrompt ''Confirm finalized schema'') =
   count_list t (EvBoolPrompt ''Confirm finalized schema'')"
  by (simp add: buildDatasourceLocationConfig_def buildDatasourceLocationConfigForSelectedLocation_def
        NewAWSS3LocationConfigFromPrompts_def call_defs
        split: sum.splits location_case.splits)

lemma format_step_shows_no_final_prompt:
  "count_list (snd (snd (buildDatasourceFormatConfig E c manifest t)))
     (EvBoolPrompt ''Confirm finalized schema'') =
   count_list t (EvBoolPrompt ''Confirm finalized schema'')"
  by (simp add: buildDatasourceFormatConfig_def NewCSVFilesFormatConfigFromPrompts_def call_defs Let_def
        split: sum.splits format_case.splits)

lemma confirm_step_shows_no_final_prompt:
  "count_list (snd (snd (confirmDatasourceConfigs E manifest t)))
     (EvBoolPrompt ''Confirm finalized schema'') =
   count_list t (EvBoolPrompt ''Confirm finalized schema'')"
  by (simp add: confirmDatasourceConfigs_def call_defs Let_def split: sum.splits)

lemma builders_ignore_yaml_Unmarshal:
  "NewAWSS3LocationConfigFromPrompts (E\<lparr>yaml_Unmarshal := f\<rparr>) t =
     NewAWSS3LocationConfigFromPrompts E t"
  "NewCSVFilesFormatConfigFromPrompts (E\<lparr>yaml_Unmarshal := f\<rparr>) c t =
     NewCSVFilesFormatConfigFromPrompts E c t"
  by (simp_all add: NewAWSS3LocationConfigFromPrompts_def NewCSVFilesFormatConfigFromPrompts_def
        call_defs split: sum.splits)

lemma location_dispatch_ignores_yaml_Unmarshal:
  "buildDatasourceLocationConfigForSelectedLocation (E\<lparr>yaml_Unmarshal := f\<rparr>) c location t =
     buildDatasourceLocationConfigForSelectedLocation E c location t"
  by (simp add: buildDatasourceLocationConfigForSelectedLocation_def builders_ignore_yaml_Unmarshal
        split: location_case.splits)

lemma steps_ignore_yaml_Unmarshal:
  "buildDatasourceLocationConfig (E\<lparr>yaml_Unmarshal := f\<rparr>) c manifest t =
     buildDatasourceLocationConfig E c manifest t"
  "buildDatasourceFormatConfig (E\<lparr>yaml_Unmarshal := f\<rparr>) c manifest t =
     buildDatasourceFormatConfig E c manifest t"
  "confirmDatasourceConfigs (E\<lparr>yaml_Unmarshal := f\<rparr>) manifest t =
     confirmDatasourceConfigs E manifest t"
  by (simp_all add: buildDatasourceLocationConfig_def buildDatasourceFormatConfig_def
        confirmDatasourceConfigs_def call_defs
        builders_ignore_yaml_Unmarshal location_dispatch_ignores_yaml_Unmarshal Let_def
        split: sum.splits format_case.splits)

lemma schema_step_ignores_parsed_record:
  "buildDatarepoSchema (E\<lparr>yaml_Unmarshal := \<lambda>s. map_sum id g (yaml_Unmarshal E s)\<rparr>) manifest t =
     buildDatarepoSchema E manifest t"
  by (simp add: buildDatarepoSchema_def call_defs Let_def split: sum.splits)

lemma Run_ignores_parsed_record:
  "Run (E\<lparr>yaml_Unmarshal := \<lambda>s. map_sum id g (yaml_Unmarshal E s)\<rparr>) c t = Run E c t"
  by (simp add: Run_def steps_ignore_yaml_Unmarshal schema_step_ignores_parsed_record
        cong: prod.case_cong option.case_cong)

lemma Run_run_steps:
  "Run E c t =
     run_steps [buildDatasourceLocationConfig E c, buildDatasourceFormatConfig E c,
                confirmDatasourceConfigs E, buildDatarepoSchema E]
       zero_IngestManifest (call_Println [] t)"
  by (simp add: Run_def split: prod.splits option.splits)

section \<open>The format-selection step\<close>

text \<open>
  Claim C7. For every location value that has an entry in \<open>allowedSelectors\<close>, the
  format step invokes the ''Data format'' prompt with exactly the list configured for
  that value, in the configured order: the first call the step makes is that prompt
  with that list, and it is the only ''Data format'' prompt of the step, so no other
  option list is offered. Every configured list is CSV files followed by individual
  files.
\<close>

theorem format_prompt_offers_table_list:
  assumes "allowedSelectors c (Value (selectedDatasourceLocation manifest)) = Some opts"
  shows "snd (snd (buildDatasourceFormatConfig E c manifest t)) ! length t =
           EvSelectPrompt ''Data format'' ''Choose how your data is laid out.'' opts
       \<and> shown_options ''Data format'' (snd (snd (buildDatasourceFormatConfig E c manifest t))) =
           shown_options ''Data format'' t @ [opts]
       \<and> opts = [CommaSeparatedValuesFilesSelector c, IndividualBinaryFilesSelector c]"
proof -
  have opts: "opts = [CommaSeparatedValuesFilesSelector c, IndividualBinaryFilesSelector c]"
    using assms by (simp add: allowedSelectors_def split: if_splits)
  have idx: "allowedSelectors_index c (Value (selectedDatasourceLocation manifest)) = opts"
    using assms by (simp add: allowedSelectors_index_def)
  obtain evs where
    "snd (snd (buildDatasourceFormatConfig E c manifest t)) =
       (t @ [EvSelectPrompt ''Data format'' ''Choose how your data is laid out.'' opts]) @ evs"
    and "shown_options ''Data format'' evs = []"
    using format_step_trace[of E c manifest t] idx by auto
  then show ?thesis
    using opts by (simp add: shown_options_append nth_append)
qed

theorem format_prompt_offers_table_list_witness:
  "allowedSelectors example_constants (Value (selectedDatasourceLocation example_manifest)) =
     Some [CommaSeparatedValuesFilesSelector example_constants,
           IndividualBinaryFilesSelector example_constants]
   \<and> snd (snd (buildDatasourceFormatConfig example_collaborators example_constants
                    example_manifest [])) ! 0 =
       EvSelectPrompt ''Data format'' ''Choose how your data is laid out.''
         [CommaSeparatedValuesFilesSelector example_constants,
          IndividualBinaryFilesSelector example_constants]
   \<and> shown_options ''Data format''
         (snd (snd (buildDatasourceFormatConfig example_collaborators example_constants
                      example_manifest []))) =
       [[CommaSeparatedValuesFilesSelector example_constants,
         IndividualBinaryFilesSelector example_constants]]"
proof -
  have h: "allowedSelectors example_constants (Value (selectedDatasourceLocation example_manifest)) =
     Some [CommaSeparatedValuesFilesSelector example_constants,
           IndividualBinaryFilesSelector example_constants]"
    by (simp add: allowedSelectors_def example_manifest_def example_constants_def
          AWSS3Selector_def LocalDirectorySelector_def)
  show ?thesis
    using h format_prompt_offers_table_list [OF h, of example_collaborators "[]"] by simp
qed

text \<open>
  Claim C4. When the location is AWS S3 and the user selects the individual-files
  format, \<open>buildDatasourceFormatConfig\<close> returns the error
  ''individual binary files not yet supported''. Whenever the step returns an error
  (an unsupported format, a failed prompt, a failed builder or an unrecognised value),
  the manifest it leaves is the manifest it was given: \<open>selectedDatasourceType\<close> and
  \<open>DatasourceFormatConfig\<close> are unchanged, and so is every other field.
\<close>

theorem format_step_individual_files_unsupported:
  "(selectedDatasourceLocation manifest = AWSS3Selector c \<and>
    SelectPrompt E t ''Data format'' ''Choose how your data is laid out.''
      [CommaSeparatedValuesFilesSelector c, IndividualBinaryFilesSelector c] =
      Inr (IndividualBinaryFilesSelector c)
    \<longrightarrow> fst (buildDatasourceFormatConfig E c manifest t) =
          Some (errors_New ''individual binary files not yet supported''))
   \<and> (fst (buildDatasourceFormatConfig E c manifest t) \<noteq> None
    \<longrightarrow> selectedDatasourceType (fst (snd (buildDatasourceFormatConfig E c manifest t))) =
          selectedDatasourceType manifest
      \<and> DatasourceFormatConfig (fst (snd (buildDatasourceFormatConfig E c manifest t))) =
          DatasourceFormatConfig manifest
      \<and> fst (snd (buildDatasourceFormatConfig E c manifest t)) = manifest)"
proof (intro conjI impI)
  assume h: "selectedDatasourceLocation manifest = AWSS3Selector c \<and>
    SelectPrompt E t ''Data format'' ''Choose how your data is laid out.''
      [CommaSeparatedValuesFilesSelector c, IndividualBinaryFilesSelector c] =
      Inr (IndividualBinaryFilesSelector c)"
  have "allowedSelectors_index c (Value (selectedDatasourceLocation manifest)) =
          [CommaSeparatedValuesFilesSelector c, IndividualBinaryFilesSelector c]"
    using h by (simp add: allowedSelectors_index_def allowedSelectors_def)
  then show "fst (buildDatasourceFormatConfig E c manifest t) =
          Some (errors_New ''individual binary files not yet supported'')"
    using h by (simp add: buildDatasourceFormatConfig_def call_SelectPrompt_def format_switch_def)
next
  assume "fst (buildDatasourceFormatConfig E c manifest t) \<noteq> None"
  then obtain e where "fst (buildDatasourceFormatConfig E c manifest t) = Some e" by auto
  then have m: "fst (snd (buildDatasourceFormatConfig E c manifest t)) = manifest"
    by (rule format_step_error_keeps_manifest)
  show "selectedDatasourceType (fst (snd (buildDatasourceFormatConfig E c manifest t))) =
          selectedDatasourceType manifest" using m by simp
  show "DatasourceFormatConfig (fst (snd (buildDatasourceFormatConfig E c manifest t))) =
          DatasourceFormatConfig manifest" using m by simp
  show "fst (snd (buildDatasourceFormatConfig E c manifest t)) = manifest" by (rule m)
qed

theorem format_step_individual_files_unsupported_witness:
  "selectedDatasourceLocation example_manifest = AWSS3Selector example_constants
   \<and> buildDatasourceFormatConfig user_picks_individual_files
       example_constants example_manifest [] =
     (Some (errors_New ''individual binary files not yet supported''), example_manifest,
      [EvSelectPrompt ''Data format'' ''Choose how your data is laid out.''
        [CommaSeparatedValuesFilesSelector example_constants,
         IndividualBinaryFilesSelector example_constants]])"
proof -
  let ?E = user_picks_individual_files
  have loc: "selectedDatasourceLocation example_manifest = AWSS3Selector example_constants"
    by (simp add: example_manifest_def)
  have ans: "SelectPrompt ?E [] ''Data format'' ''Choose how your data is laid out.''
      [CommaSeparatedValuesFilesSelector example_constants,
       IndividualBinaryFilesSelector example_constants] =
      Inr (IndividualBinaryFilesSelector example_constants)"
    by (simp add: user_picks_individual_files_def)
  have tr: "snd (snd (buildDatasourceFormatConfig ?E example_constants example_manifest [])) =
      [EvSelectPrompt ''Data format'' ''Choose how your data is laid out.''
        [CommaSeparatedValuesFilesSelector example_constants,
         IndividualBinaryFilesSelector example_constants]]"
    by (simp add: step_defs call_defs example_defs user_picks_individual_files_def selector_defs)
  have "fst (buildDatasourceFormatConfig ?E example_constants example_manifest []) =
          Some (errors_New ''individual binary files not yet supported'')
        \<and> fst (snd (buildDatasourceFormatConfig ?E example_constants example_manifest [])) =
          example_manifest"
    using format_step_individual_files_unsupported
      [of example_manifest example_constants ?E "[]"] loc ans by simp
  then show ?thesis
    using loc tr by (simp add: prod_eq_iff)
qed

lemma format_step_succeeds_iff:
  "(fst (buildDatasourceFormatConfig E c manifest t) = None) =
     (case SelectPrompt E t ''Data format'' ''Choose how your data is laid out.''
             (allowedSelectors_index c (Value (selectedDatasourceLocation manifest))) of
        Inl err \<Rightarrow> False
      | Inr result \<Rightarrow>
          format_switch c (Value result) = CaseCommaSeparatedValuesFiles \<and>
          \<not> isl (fst (NewCSVFilesFormatConfigFromPrompts E c
                 (t @ [EvSelectPrompt ''Data format'' ''Choose how your data is laid out.''
                         (allowedSelectors_index c (Value (selectedDatasourceLocation manifest)))]))))"
  by (auto simp add: buildDatasourceFormatConfig_def call_SelectPrompt_def Let_def
        split: sum.splits prod.splits format_case.splits)

lemma format_step_prompt_failure:
  "SelectPrompt E t ''Data format'' ''Choose how your data is laid out.''
     (allowedSelectors_index c (Value (selectedDatasourceLocation manifest))) = Inl err \<Longrightarrow>
   fst (buildDatasourceFormatConfig E c manifest t) = Some err"
  by (simp add: buildDatasourceFormatConfig_def call_SelectPrompt_def)

text \<open>
  Claim C1, as amended. \<open>buildDatasourceFormatConfig\<close> does not check the lookup in
  \<open>allowedSelectors\<close>. When the table has no entry for the value of the chosen
  location, indexing the map gives the empty list and the step goes on: its first call
  is the ''Data format'' prompt with no options, which is its only format prompt; the
  step returns the nil error exactly when that prompt returns an option whose value is
  the CSV one and the CSV builder succeeds; and when the prompt fails the step returns
  the prompt's error. The claim as stated, that the missing entry alone is a fatal
  error, fails: in the counterexample that follows the theorem, the location value of
  the zero manifest has no entry; with a prompt that answers CSV the step succeeds, and
  with a prompt that fails the step has called the prompt and returns its error.
\<close>

theorem format_step_missing_entry_proceeds:
  assumes "allowedSelectors c (Value (selectedDatasourceLocation manifest)) = None"
  shows "snd (snd (buildDatasourceFormatConfig E c manifest t)) ! length t =
           EvSelectPrompt ''Data format'' ''Choose how your data is laid out.'' []
       \<and> shown_options ''Data format'' (snd (snd (buildDatasourceFormatConfig E c manifest t))) =
           shown_options ''Data format'' t @ [[]]
       \<and> (fst (buildDatasourceFormatConfig E c manifest t) = None) =
           (case SelectPrompt E t ''Data format'' ''Choose how your data is laid out.'' [] of
              Inl err \<Rightarrow> False
            | Inr result \<Rightarrow>
                format_switch c (Value result) = CaseCommaSeparatedValuesFiles \<and>
                \<not> isl (fst (NewCSVFilesFormatConfigFromPrompts E c
                   (t @ [EvSelectPrompt ''Data format'' ''Choose how your data is laid out.'' []]))))
       \<and> (\<forall>err. SelectPrompt E t ''Data format'' ''Choose how your data is laid out.'' [] = Inl err
             \<longrightarrow> fst (buildDatasourceFormatConfig E c manifest t) = Some err)"
proof -
  have idx: "allowedSelectors_index c (Value (selectedDatasourceLocation manifest)) = []"
    using assms by (simp add: allowedSelectors_index_def)
  obtain evs where
    "snd (snd (buildDatasourceFormatConfig E c manifest t)) =
       (t @ [EvSelectPrompt ''Data format'' ''Choose how your data is laid out.'' []]) @ evs"
    and "shown_options ''Data format'' evs = []"
    using format_step_trace[of E c manifest t] idx by auto
  then have tr: "snd (snd (buildDatasourceFormatConfig E c manifest t)) ! length t =
           EvSelectPrompt ''Data format'' ''Choose how your data is laid out.'' []
       \<and> shown_options ''Data format'' (snd (snd (buildDatasourceFormatConfig E c manifest t))) =
           shown_options ''Data format'' t @ [[]]"
    by (simp add: shown_options_append nth_append)
  show ?thesis
    using tr format_step_succeeds_iff[of E c manifest t, unfolded idx]
      format_step_prompt_failure[of E t c manifest, unfolded idx]
    by simp
qed

theorem format_step_missing_entry_proceeds_witness:
  "allowedSelectors example_constants (Value (selectedDatasourceLocation zero_IngestManifest)) = None
   \<and> shown_options ''Data format''
        (snd (snd (buildDatasourceFormatConfig example_collaborators example_constants
                     zero_IngestManifest []))) = [[]]
   \<and> fst (buildDatasourceFormatConfig example_collaborators example_constants
            zero_IngestManifest []) = None
   \<and> fst (buildDatasourceFormatConfig
            interrupted_select_prompt
            example_constants zero_IngestManifest []) = Some (errors_New ''^C'')"
proof -
  let ?E = interrupted_select_prompt
  have h: "allowedSelectors example_constants (Value (selectedDatasourceLocation zero_IngestManifest)) = None"
    by (simp add: allowedSelectors_def example_defs interrupted_select_prompt_def selector_defs)
  have ok: "(case SelectPrompt example_collaborators [] ''Data format'' ''Choose how your data is laid out.'' [] of
              Inl err \<Rightarrow> False
            | Inr result \<Rightarrow>
                format_switch example_constants (Value result) = CaseCommaSeparatedValuesFiles \<and>
                \<not> isl (fst (NewCSVFilesFormatConfigFromPrompts example_collaborators example_constants
                   ([] @ [EvSelectPrompt ''Data format'' ''Choose how your data is laid out.'' []]))))"
    by (simp add: step_defs call_defs example_defs interrupted_select_prompt_def selector_defs)
  have fails: "SelectPrompt ?E [] ''Data format'' ''Choose how your data is laid out.'' [] =
                 Inl (errors_New ''^C'')"
    by (simp add: interrupted_select_prompt_def)
  show ?thesis
    using h ok fails
      format_step_missing_entry_proceeds [OF h, of example_collaborators "[]"]
      format_step_missing_entry_proceeds [OF h, of ?E "[]"]
    by simp
qed

theorem format_step_missing_entry_fatal_counterexample:
  "allowedSelectors example_constants (Value (selectedDatasourceLocation zero_IngestManifest)) = None
   \<and> buildDatasourceFormatConfig example_collaborators example_constants zero_IngestManifest [] =
     (None,
      zero_IngestManifest\<lparr>selectedDatasourceType := CommaSeparatedValuesFilesSelector example_constants,
                          DatasourceFormatConfig := CSVFilesFormatConfig '','' True\<rparr>,
      [EvSelectPrompt ''Data format'' ''Choose how your data is laid out.'' [],
       EvSelectPrompt ''Delimiter'' ''Columns in each file are delimited by this character''
         (csvDelimiterSelectors example_constants),
       EvBoolPrompt ''CSV files contain header row''])
   \<and> buildDatasourceFormatConfig interrupted_select_prompt example_constants zero_IngestManifest [] =
     (Some (errors_New ''^C''), zero_IngestManifest,
      [EvSelectPrompt ''Data format'' ''Choose how your data is laid out.'' []])"
  by (simp add: step_defs call_defs example_defs interrupted_select_prompt_def selector_defs)

section \<open>Branching on the chosen option\<close>











section \<open>The location-selection step\<close>

text \<open>
  Claim C9. When the user chooses the local-directory option at the ''Data Source''
  prompt, \<open>buildDatasourceLocationConfig\<close> returns the error
  ''local directories not yet supported''. Whenever the step returns an error, the
  manifest it leaves is the manifest it was given: \<open>selectedDatasourceLocation\<close> and
  \<open>DatasourceLocationConfig\<close> are unchanged, and so is every other field.
\<close>

theorem location_step_local_directory_unsupported:
  "(SelectPrompt E t ''Data Source'' ''Specify the source for importing data from.''
      (locationSelectors c) = Inr (LocalDirectorySelector c)
    \<longrightarrow> fst (buildDatasourceLocationConfig E c manifest t) =
          Some (errors_New ''local directories not yet supported''))
   \<and> (fst (buildDatasourceLocationConfig E c manifest t) \<noteq> None
    \<longrightarrow> selectedDatasourceLocation (fst (snd (buildDatasourceLocationConfig E c manifest t))) =
          selectedDatasourceLocation manifest
      \<and> DatasourceLocationConfig (fst (snd (buildDatasourceLocationConfig E c manifest t))) =
          DatasourceLocationConfig manifest
      \<and> fst (snd (buildDatasourceLocationConfig E c manifest t)) = manifest)"
proof (intro conjI impI)
  assume "SelectPrompt E t ''Data Source'' ''Specify the source for importing data from.''
      (locationSelectors c) = Inr (LocalDirectorySelector c)"
  then show "fst (buildDatasourceLocationConfig E c manifest t) =
          Some (errors_New ''local directories not yet supported'')"
    by (simp add: buildDatasourceLocationConfig_def call_SelectPrompt_def
          buildDatasourceLocationConfigForSelectedLocation_def location_switch_def)
next
  assume "fst (buildDatasourceLocationConfig E c manifest t) \<noteq> None"
  then obtain e where "fst (buildDatasourceLocationConfig E c manifest t) = Some e" by auto
  then have m: "fst (snd (buildDatasourceLocationConfig E c manifest t)) = manifest"
    by (rule location_step_error_keeps_manifest)
  show "selectedDatasourceLocation (fst (snd (buildDatasourceLocationConfig E c manifest t))) =
          selectedDatasourceLocation manifest" using m by simp
  show "DatasourceLocationConfig (fst (snd (buildDatasourceLocationConfig E c manifest t))) =
          DatasourceLocationConfig manifest" using m by simp
  show "fst (snd (buildDatasourceLocationConfig E c manifest t)) = manifest" by (rule m)
qed

theorem location_step_local_directory_unsupported_witness:
  "SelectPrompt user_picks_local_directory []
     ''Data Source'' ''Specify the source for importing data from.''
     (locationSelectors example_constants) = Inr (LocalDirectorySelector example_constants)
   \<and> buildDatasourceLocationConfig user_picks_local_directory
       example_constants zero_IngestManifest [] =
     (Some (errors_New ''local directories not yet supported''), zero_IngestManifest,
      [EvSelectPrompt ''Data Source'' ''Specify the source for importing data from.''
         (locationSelectors example_constants)])"
  using location_step_local_directory_unsupported
    [of user_picks_local_directory "[]"
        example_constants zero_IngestManifest]
  by (simp add: buildDatasourceLocationConfig_def call_SelectPrompt_def
        buildDatasourceLocationConfigForSelectedLocation_def location_switch_def
        user_picks_local_directory_def)

section \<open>The schema step\<close>

text \<open>
  Claim C6. In a run whose first three steps succeeded and whose sampler, preview,
  schema serialisation and editor succeeded, if the text the editor returns does not
  parse, then \<open>buildDatarepoSchema\<close> returns the parse error after the editor prompt
  (its only one), the run ends with that error, and the run shows no
  ''Confirm finalized schema'' prompt.
\<close>

theorem schema_parse_failure_ends_run:
  fixes E :: "('smp, 'sch, 'fld) collaborators"
  defines "fc \<equiv> DatasourceFormatConfig" and "lc \<equiv> DatasourceLocationConfig"
  assumes steps: "buildDatasourceLocationConfig E c zero_IngestManifest (call_Println [] t0) = (None, m1, tr1)"
      "buildDatasourceFormatConfig E c m1 tr1 = (None, m2, tr2)"
      "confirmDatasourceConfigs E m2 tr2 = (None, manifest, t)"
    and calls: "SamplerFactory E t (fc manifest) (lc manifest) = Inr sampler"
      "SampleSchema E (t @ [EvSamplerFactory (fc manifest) (lc manifest)]) sampler = Inr sampledSchema"
      "PreviewSamples E (t @ [EvSamplerFactory (fc manifest) (lc manifest), EvSampleSchema sampler])
           sampledSchema sampler = Inr tablePreview"
      "yaml_Marshal_schema E sampledSchema = Inr yamlSchema"
      "EditorPrompt E (t @ [EvSamplerFactory (fc manifest) (lc manifest), EvSampleSchema sampler,
                              EvPreviewSamples sampledSchema sampler])
           (SchemaEditorTutorialBlurb @ tablePreview @ yamlSchema) ''yaml'' = Inr finalizedSchemaStr"
    and parse: "yaml_Unmarshal E finalizedSchemaStr = Inl err"
  shows "buildDatarepoSchema E manifest t =
           (Some err, manifest,
            t @ [EvSamplerFactory (fc manifest) (lc manifest), EvSampleSchema sampler,
                 EvPreviewSamples sampledSchema sampler,
                 EvEditorPrompt (SchemaEditorTutorialBlurb @ tablePreview @ yamlSchema) ''yaml''])
       \<and> Run E c t0 =
           (Some err,
            t @ [EvSamplerFactory (fc manifest) (lc manifest), EvSampleSchema sampler,
                 EvPreviewSamples sampledSchema sampler,
                 EvEditorPrompt (SchemaEditorTutorialBlurb @ tablePreview @ yamlSchema) ''yaml''])
       \<and> count_list (snd (Run E c t0)) (EvBoolPrompt ''Confirm finalized schema'') =
           count_list t0 (EvBoolPrompt ''Confirm finalized schema'')"
proof -
  have step: "buildDatarepoSchema E manifest t =
           (Some err, manifest,
            t @ [EvSamplerFactory (fc manifest) (lc manifest), EvSampleSchema sampler,
                 EvPreviewSamples sampledSchema sampler,
                 EvEditorPrompt (SchemaEditorTutorialBlurb @ tablePreview @ yamlSchema) ''yaml''])"
    using calls parse by (simp add: buildDatarepoSchema_def call_defs fc_def lc_def)
  have run: "Run E c t0 = (fst (buildDatarepoSchema E manifest t),
                       snd (snd (buildDatarepoSchema E manifest t)))"
    using steps by (rule Run_after_confirm)
  have "count_list t (EvBoolPrompt ''Confirm finalized schema'') =
          count_list t0 (EvBoolPrompt ''Confirm finalized schema'')"
    using location_step_shows_no_final_prompt[of E c zero_IngestManifest "call_Println [] t0"]
      format_step_shows_no_final_prompt[of E c m1 tr1]
      confirm_step_shows_no_final_prompt[of E m2 tr2] steps
    by (simp add: call_Println_def)
  then show ?thesis
    using step run by simp
qed

theorem schema_parse_failure_ends_run_witness:
  "Run unparsable_edit
     example_constants [] =
     (Some (GoError ''*yaml.TypeError'' ''yaml: unmarshal errors''),
      [EvPrintln [],
       EvSelectPrompt ''Data Source'' ''Specify the source for importing data from.''
         (locationSelectors example_constants),
       EvTextPrompt ''AWS S3 Bucket'', EvTextPrompt ''AWS S3 Prefix'',
       EvSelectPrompt ''Data format'' ''Choose how your data is laid out.''
         [CommaSeparatedValuesFilesSelector example_constants,
          IndividualBinaryFilesSelector example_constants],
       EvSelectPrompt ''Delimiter'' ''Columns in each file are delimited by this character''
         (csvDelimiterSelectors example_constants),
       EvBoolPrompt ''CSV files contain header row'',
       EvPrintln ''Data Source Configurations:'', EvPrintln [], EvPrintln ''manifest.yaml'',
       EvBoolPrompt ''Confirm and detect schema'',
       EvSamplerFactory (CSVFilesFormatConfig '','' True) (AWSS3LocationConfig ''my-bucket'' ''data/''),
       EvSampleSchema ''sampler'', EvPreviewSamples ''schema'' ''sampler'',
       EvEditorPrompt (SchemaEditorTutorialBlurb @ ''preview'' @ ''schema.yaml'') ''yaml''])"
proof -
  let ?E = unparsable_edit
  let ?c = example_constants
  let ?r1 = "buildDatasourceLocationConfig ?E ?c zero_IngestManifest (call_Println [] [])"
  let ?r2 = "buildDatasourceFormatConfig ?E ?c (fst (snd ?r1)) (snd (snd ?r1))"
  let ?r3 = "confirmDatasourceConfigs ?E (fst (snd ?r2)) (snd (snd ?r2))"
  let ?m = "fst (snd ?r3)" and ?t = "snd (snd ?r3)"
  have r1: "?r1 = (None, fst (snd ?r1), snd (snd ?r1))"
    by (simp add: step_defs call_defs example_defs unparsable_edit_def selector_defs)
  have r2: "?r2 = (None, fst (snd ?r2), snd (snd ?r2))"
    by (simp add: step_defs call_defs example_defs unparsable_edit_def selector_defs)
  have r3: "?r3 = (None, ?m, ?t)"
    by (simp add: step_defs call_defs example_defs unparsable_edit_def selector_defs)
  have m: "?m = \<lparr>selectedDatasourceType = CommaSeparatedValuesFilesSelector ?c,
                  DatasourceFormatConfig = CSVFilesFormatConfig '','' True,
                  selectedDatasourceLocation = AWSS3Selector ?c,
                  DatasourceLocationConfig = AWSS3LocationConfig ''my-bucket'' ''data/''\<rparr>"
    by (simp add: step_defs call_defs example_defs unparsable_edit_def selector_defs)
  have t: "?t = [EvPrintln [],
       EvSelectPrompt ''Data Source'' ''Specify the source for importing data from.''
         (locationSelectors example_constants),
       EvTextPrompt ''AWS S3 Bucket'', EvTextPrompt ''AWS S3 Prefix'',
       EvSelectPrompt ''Data format'' ''Choose how your data is laid out.''
         [CommaSeparatedValuesFilesSelector example_constants,
          IndividualBinaryFilesSelector example_constants],
       EvSelectPrompt ''Delimiter'' ''Columns in each file are delimited by this character''
         (csvDelimiterSelectors example_constants),
       EvBoolPrompt ''CSV files contain header row'',
       EvPrintln ''Data Source Configurations:'', EvPrintln [], EvPrintln ''manifest.yaml'',
       EvBoolPrompt ''Confirm and detect schema'']"
    by (simp add: step_defs call_defs example_defs unparsable_edit_def selector_defs)
  have c1: "SamplerFactory ?E ?t (DatasourceFormatConfig ?m) (DatasourceLocationConfig ?m) = Inr ''sampler''"
    by (simp add: example_defs unparsable_edit_def)
  have c2: "SampleSchema ?E (?t @ [EvSamplerFactory (DatasourceFormatConfig ?m) (DatasourceLocationConfig ?m)])
              ''sampler'' = Inr ''schema''"
    by (simp add: example_defs unparsable_edit_def)
  have c3: "PreviewSamples ?E (?t @ [EvSamplerFactory (DatasourceFormatConfig ?m) (DatasourceLocationConfig ?m),
              EvSampleSchema ''sampler'']) ''schema'' ''sampler'' = Inr ''preview''"
    by (simp add: example_defs unparsable_edit_def)
  have c4: "yaml_Marshal_schema ?E ''schema'' = Inr ''schema.yaml''"
    by (simp add: example_defs unparsable_edit_def)
  have c5: "EditorPrompt ?E (?t @ [EvSamplerFactory (DatasourceFormatConfig ?m) (DatasourceLocationConfig ?m),
              EvSampleSchema ''sampler'', EvPreviewSamples ''schema'' ''sampler''])
              (SchemaEditorTutorialBlurb @ ''preview'' @ ''schema.yaml'') ''yaml'' =
            Inr (SchemaEditorTutorialBlurb @ ''preview'' @ ''schema.yaml'')"
    by (simp add: example_defs unparsable_edit_def)
  have c6: "yaml_Unmarshal ?E (SchemaEditorTutorialBlurb @ ''preview'' @ ''schema.yaml'') =
            Inl (GoError ''*yaml.TypeError'' ''yaml: unmarshal errors'')"
    by (simp add: unparsable_edit_def)
  from schema_parse_failure_ends_run [OF r1 r2 r3 c1 c2 c3 c4 c5 c6]
  have "Run ?E ?c [] = (Some (GoError ''*yaml.TypeError'' ''yaml: unmarshal errors''),
      ?t @ [EvSamplerFactory (DatasourceFormatConfig ?m) (DatasourceLocationConfig ?m),
            EvSampleSchema ''sampler'', EvPreviewSamples ''schema'' ''sampler'',
            EvEditorPrompt (SchemaEditorTutorialBlurb @ ''preview'' @ ''schema.yaml'') ''yaml''])"
    by simp
  then show ?thesis
    unfolding t m by simp
qed

text \<open>
  Claim C10. On the success path of \<open>buildDatarepoSchema\<close> (sampler, preview,
  serialisation and editor succeed, the edited text parses and the user confirms) the
  step returns the nil error and the manifest it was given, and the calls it made are
  the seven listed, none of which receives the parsed record. Replacing the parsed
  record by any other record changes neither the result of the step nor the result
  and trace of the whole run: the record counts only through the parse succeeding.
\<close>

theorem schema_step_success_carries_no_schema:
  fixes E :: "('smp, 'sch, 'fld) collaborators"
  defines "fc \<equiv> DatasourceFormatConfig" and "lc \<equiv> DatasourceLocationConfig"
  assumes calls: "SamplerFactory E t (fc manifest) (lc manifest) = Inr sampler"
      "SampleSchema E (t @ [EvSamplerFactory (fc manifest) (lc manifest)]) sampler = Inr sampledSchema"
      "PreviewSamples E (t @ [EvSamplerFactory (fc manifest) (lc manifest), EvSampleSchema sampler])
           sampledSchema sampler = Inr tablePreview"
      "yaml_Marshal_schema E sampledSchema = Inr yamlSchema"
      "EditorPrompt E (t @ [EvSamplerFactory (fc manifest) (lc manifest), EvSampleSchema sampler,
                              EvPreviewSamples sampledSchema sampler])
           (SchemaEditorTutorialBlurb @ tablePreview @ yamlSchema) ''yaml'' = Inr finalizedSchemaStr"
    and parse: "yaml_Unmarshal E finalizedSchemaStr = Inr recordField"
    and confirm: "BoolPrompt E (t @ [EvSamplerFactory (fc manifest) (lc manifest), EvSampleSchema sampler,
                              EvPreviewSamples sampledSchema sampler,
                              EvEditorPrompt (SchemaEditorTutorialBlurb @ tablePreview @ yamlSchema) ''yaml'',
                              EvPrintln ''Final Schema:'', EvPrintln finalizedSchemaStr])
           ''Confirm finalized schema'' = Inr True"
  shows "buildDatarepoSchema E manifest t =
           (None, manifest,
            t @ [EvSamplerFactory (fc manifest) (lc manifest), EvSampleSchema sampler,
                 EvPreviewSamples sampledSchema sampler,
                 EvEditorPrompt (SchemaEditorTutorialBlurb @ tablePreview @ yamlSchema) ''yaml'',
                 EvPrintln ''Final Schema:'', EvPrintln finalizedSchemaStr,
                 EvBoolPrompt ''Confirm finalized schema''])
       \<and> buildDatarepoSchema (E\<lparr>yaml_Unmarshal := \<lambda>s. map_sum id g (yaml_Unmarshal E s)\<rparr>) manifest t =
           buildDatarepoSchema E manifest t
       \<and> Run (E\<lparr>yaml_Unmarshal := \<lambda>s. map_sum id g (yaml_Unmarshal E s)\<rparr>) c t0 = Run E c t0"
proof (intro conjI)
  show "Run (E\<lparr>yaml_Unmarshal := \<lambda>s. map_sum id g (yaml_Unmarshal E s)\<rparr>) c t0 = Run E c t0"
    by (rule Run_ignores_parsed_record)
  show "buildDatarepoSchema E manifest t =
           (None, manifest,
            t @ [EvSamplerFactory (fc manifest) (lc manifest), EvSampleSchema sampler,
                 EvPreviewSamples sampledSchema sampler,
                 EvEditorPrompt (SchemaEditorTutorialBlurb @ tablePreview @ yamlSchema) ''yaml'',
                 EvPrintln ''Final Schema:'', EvPrintln finalizedSchemaStr,
                 EvBoolPrompt ''Confirm finalized schema''])"
    using calls parse confirm
    by (simp add: buildDatarepoSchema_def call_defs fc_def lc_def)
  show "buildDatarepoSchema (E\<lparr>yaml_Unmarshal := \<lambda>s. map_sum id g (yaml_Unmarshal E s)\<rparr>) manifest t =
       buildDatarepoSchema E manifest t"
    by (rule schema_step_ignores_parsed_record)
qed

theorem schema_step_success_carries_no_schema_witness:
  "buildDatarepoSchema example_collaborators example_manifest [] =
     (None, example_manifest,
      [EvSamplerFactory NilConfig (AWSS3LocationConfig ''my-bucket'' ''data/''),
       EvSampleSchema ''sampler'', EvPreviewSamples ''schema'' ''sampler'',
       EvEditorPrompt (SchemaEditorTutorialBlurb @ ''preview'' @ ''schema.yaml'') ''yaml'',
       EvPrintln ''Final Schema:'',
       EvPrintln (SchemaEditorTutorialBlurb @ ''preview'' @ ''schema.yaml''),
       EvBoolPrompt ''Confirm finalized schema''])
   \<and> buildDatarepoSchema
       (example_collaborators\<lparr>yaml_Unmarshal :=
          \<lambda>s. map_sum id (\<lambda>r. ''another record'') (yaml_Unmarshal example_collaborators s)\<rparr>)
       example_manifest [] =
     buildDatarepoSchema example_collaborators example_manifest []
   \<and> Run
       (example_collaborators\<lparr>yaml_Unmarshal :=
          \<lambda>s. map_sum id (\<lambda>r. ''another record'') (yaml_Unmarshal example_collaborators s)\<rparr>)
       example_constants [] =
     Run example_collaborators example_constants []"
proof -
  let ?E = example_collaborators and ?m = example_manifest
  have fc: "DatasourceFormatConfig ?m = NilConfig"
    and lc: "DatasourceLocationConfig ?m = AWSS3LocationConfig ''my-bucket'' ''data/''"
    by (simp_all add: example_defs)
  have c1: "SamplerFactory ?E [] (DatasourceFormatConfig ?m) (DatasourceLocationConfig ?m) = Inr ''sampler''"
    by (simp add: example_defs)
  have c2: "SampleSchema ?E ([] @ [EvSamplerFactory (DatasourceFormatConfig ?m) (DatasourceLocationConfig ?m)])
              ''sampler'' = Inr ''schema''"
    by (simp add: example_defs)
  have c3: "PreviewSamples ?E ([] @ [EvSamplerFactory (DatasourceFormatConfig ?m) (DatasourceLocationConfig ?m),
              EvSampleSchema ''sampler'']) ''schema'' ''sampler'' = Inr ''preview''"
    by (simp add: example_defs)
  have c4: "yaml_Marshal_schema ?E ''schema'' = Inr ''schema.yaml''"
    by (simp add: example_defs)
  have c5: "EditorPrompt ?E ([] @ [EvSamplerFactory (DatasourceFormatConfig ?m) (DatasourceLocationConfig ?m),
              EvSampleSchema ''sampler'', EvPreviewSamples ''schema'' ''sampler''])
              (SchemaEditorTutorialBlurb @ ''preview'' @ ''schema.yaml'') ''yaml'' =
            Inr (SchemaEditorTutorialBlurb @ ''preview'' @ ''schema.yaml'')"
    by (simp add: example_defs)
  have c6: "yaml_Unmarshal ?E (SchemaEditorTutorialBlurb @ ''preview'' @ ''schema.yaml'') =
            Inr (SchemaEditorTutorialBlurb @ ''preview'' @ ''schema.yaml'')"
    by (simp add: example_defs)
  have c7: "BoolPrompt ?E ([] @ [EvSamplerFactory (DatasourceFormatConfig ?m) (DatasourceLocationConfig ?m),
              EvSampleSchema ''sampler'', EvPreviewSamples ''schema'' ''sampler'',
              EvEditorPrompt (SchemaEditorTutorialBlurb @ ''preview'' @ ''schema.yaml'') ''yaml'',
              EvPrintln ''Final Schema:'',
              EvPrintln (SchemaEditorTutorialBlurb @ ''preview'' @ ''schema.yaml'')])
              ''Confirm finalized schema'' = Inr True"
    by (simp add: example_defs)
  show ?thesis
    using schema_step_success_carries_no_schema
      [OF c1 c2 c3 c4 c5 c6 c7, of "\<lambda>r. ''another record''" example_constants "[]"]
    unfolding fc lc by simp
qed

section \<open>Cancellation\<close>

lemma location_step_no_sampling:
  "filter is_sampling (snd (snd (buildDatasourceLocationConfig E c manifest t))) = filter is_sampling t"
  by (simp add: buildDatasourceLocationConfig_def buildDatasourceLocationConfigForSelectedLocation_def
        NewAWSS3LocationConfigFromPrompts_def call_defs
        split: sum.splits location_case.splits)

lemma format_step_no_sampling:
  "filter is_sampling (snd (snd (buildDatasourceFormatConfig E c manifest t))) = filter is_sampling t"
  by (simp add: buildDatasourceFormatConfig_def NewCSVFilesFormatConfigFromPrompts_def call_defs Let_def
        split: sum.splits format_case.splits)

lemma Run_confirm_error:
  assumes "buildDatasourceLocationConfig E c zero_IngestManifest (call_Println [] t0) = (None, m1, tr1)"
    and "buildDatasourceFormatConfig E c m1 tr1 = (None, manifest, t)"
    and "confirmDatasourceConfigs E manifest t = (Some e, m3, t3)"
  shows "Run E c t0 = (Some e, t3)"
  using assms by (simp add: Run_def)

lemma confirm_step_no:
  assumes "yaml_Marshal_manifest E manifest = Inr y"
    and "BoolPrompt E (t @ [EvPrintln ''Data Source Configurations:'', EvPrintln [], EvPrintln y])
           ''Confirm and detect schema'' = Inr False"
  shows "confirmDatasourceConfigs E manifest t =
           (Some (errors_New ''user cancelled data source configurations''), manifest,
            t @ [EvPrintln ''Data Source Configurations:'', EvPrintln [], EvPrintln y,
                 EvBoolPrompt ''Confirm and detect schema''])"
  using assms by (simp add: confirmDatasourceConfigs_def call_defs)

lemma format_step_unsupported_error:
  assumes "SelectPrompt E t ''Data format'' ''Choose how your data is laid out.''
             (allowedSelectors_index c (Value (selectedDatasourceLocation manifest))) = Inr r"
    and "format_switch c (Value r) \<noteq> CaseCommaSeparatedValuesFiles"
  shows "map_option dyn_type (fst (buildDatasourceFormatConfig E c manifest t)) =
           Some ''*errors.errorString''
       \<and> map_option message (fst (buildDatasourceFormatConfig E c manifest t)) \<noteq>
           Some ''user cancelled data source configurations''"
  using assms
  by (cases "format_switch c (Value r)")
     (simp_all add: buildDatasourceFormatConfig_def call_SelectPrompt_def errors_New_def)

lemma location_step_unsupported_error:
  assumes "SelectPrompt E t ''Data Source'' ''Specify the source for importing data from.''
             (locationSelectors c) = Inr r"
    and "location_switch c r \<noteq> CaseAWSS3"
  shows "map_option dyn_type (fst (buildDatasourceLocationConfig E c manifest t)) =
           Some ''*errors.errorString''
       \<and> map_option message (fst (buildDatasourceLocationConfig E c manifest t)) \<noteq>
           Some ''user cancelled data source configurations''"
  using assms
  by (cases "location_switch c r")
     (simp_all add: buildDatasourceLocationConfig_def buildDatasourceLocationConfigForSelectedLocation_def
        call_SelectPrompt_def errors_New_def)

lemma schema_step_no:
  assumes "last (snd (snd (buildDatarepoSchema E manifest t))) = EvBoolPrompt ''Confirm finalized schema''"
    and "BoolPrompt E (butlast (snd (snd (buildDatarepoSchema E manifest t))))
           ''Confirm finalized schema'' = Inr False"
  shows "fst (buildDatarepoSchema E manifest t) = Some (errors_New ''aborted finalizing schema'')"
  using assms
  by (auto simp add: buildDatarepoSchema_def call_defs Let_def butlast_append
        split: sum.splits if_splits)

lemma confirm_step_prompt_failure:
  assumes "yaml_Marshal_manifest E manifest = Inr y"
    and "BoolPrompt E (t @ [EvPrintln ''Data Source Configurations:'', EvPrintln [], EvPrintln y])
           ''Confirm and detect schema'' = Inl err"
  shows "confirmDatasourceConfigs E manifest t =
           (Some err, manifest,
            t @ [EvPrintln ''Data Source Configurations:'', EvPrintln [], EvPrintln y,
                 EvBoolPrompt ''Confirm and detect schema''])"
  using assms by (simp add: confirmDatasourceConfigs_def call_defs)

lemma confirm_step_yes:
  assumes "yaml_Marshal_manifest E manifest = Inr y"
    and "BoolPrompt E (t @ [EvPrintln ''Data Source Configurations:'', EvPrintln [], EvPrintln y])
           ''Confirm and detect schema'' = Inr True"
  shows "confirmDatasourceConfigs E manifest t =
           (None, manifest,
            t @ [EvPrintln ''Data Source Configurations:'', EvPrintln [], EvPrintln y,
                 EvBoolPrompt ''Confirm and detect schema''])"
  using assms by (simp add: confirmDatasourceConfigs_def call_defs)

lemma schema_step_prompt_failure:
  assumes "last (snd (snd (buildDatarepoSchema E manifest t))) = EvBoolPrompt ''Confirm finalized schema''"
    and "BoolPrompt E (butlast (snd (snd (buildDatarepoSchema E manifest t))))
           ''Confirm finalized schema'' = Inl err"
  shows "fst (buildDatarepoSchema E manifest t) = Some err"
  using assms
  by (auto simp add: buildDatarepoSchema_def call_defs Let_def butlast_append
        split: sum.splits if_splits)

lemma location_step_prompt_failure:
  "SelectPrompt E t ''Data Source'' ''Specify the source for importing data from.''
     (locationSelectors c) = Inl err \<Longrightarrow>
   fst (buildDatasourceLocationConfig E c manifest t) = Some err"
  by (simp add: buildDatasourceLocationConfig_def call_SelectPrompt_def)

text \<open>
  Claim C5, as amended. In a run whose location and format steps succeeded and whose
  manifest was serialised, answering no at ''Confirm and detect schema'' makes
  \<open>confirmDatasourceConfigs\<close> return the error made by \<open>errors.New\<close> with the
  message ''user cancelled data source configurations''; the run ends with it and
  makes no call to the sampling collaborator. Every error the format step creates
  when the chosen value is not the CSV one, and every error the location step creates
  when the chosen option is not AWS S3, has the same dynamic type and another message.
  When \<open>buildDatarepoSchema\<close> ends at ''Confirm finalized schema'' with the answer no,
  it returns the error with the message ''aborted finalizing schema'': the same
  dynamic type, another message. A prompt failure is returned as the prompt made it:
  when the ''Confirm and detect schema'' prompt, the ''Confirm finalized schema''
  prompt, the ''Data format'' prompt or the ''Data Source'' prompt fails, its step
  returns the prompt's error; and the answer yes at ''Confirm and detect schema''
  gives the nil error. The wizard has no error kinds beyond that: the errors it
  creates are plain \<open>errors.New\<close> values told apart by their message only. The claim
  as stated fails: in the counterexample that follows the theorem, a failing prompt
  and the answer no give the same result, the two cancellations have different
  messages, and the unsupported-format error has their dynamic type.
\<close>

theorem manifest_cancellation_error:
  assumes steps:
      "buildDatasourceLocationConfig E c zero_IngestManifest (call_Println [] t0) = (None, m1, tr1)"
      "buildDatasourceFormatConfig E c m1 tr1 = (None, manifest, t)"
    and marshal: "yaml_Marshal_manifest E manifest = Inr y"
    and no: "BoolPrompt E (t @ [EvPrintln ''Data Source Configurations:'', EvPrintln [], EvPrintln y])
               ''Confirm and detect schema'' = Inr False"
  shows "confirmDatasourceConfigs E manifest t =
           (Some (errors_New ''user cancelled data source configurations''), manifest,
            t @ [EvPrintln ''Data Source Configurations:'', EvPrintln [], EvPrintln y,
                 EvBoolPrompt ''Confirm and detect schema''])
       \<and> Run E c t0 =
           (Some (errors_New ''user cancelled data source configurations''),
            t @ [EvPrintln ''Data Source Configurations:'', EvPrintln [], EvPrintln y,
                 EvBoolPrompt ''Confirm and detect schema''])
       \<and> filter is_sampling (snd (Run E c t0)) = filter is_sampling t0
       \<and> (SelectPrompt E' tfmt ''Data format'' ''Choose how your data is laid out.''
             (allowedSelectors_index c (Value (selectedDatasourceLocation mfmt))) = Inr rfmt \<and>
           format_switch c (Value rfmt) \<noteq> CaseCommaSeparatedValuesFiles
           \<longrightarrow> map_option dyn_type (fst (buildDatasourceFormatConfig E' c mfmt tfmt)) =
                 Some ''*errors.errorString''
               \<and> map_option message (fst (buildDatasourceFormatConfig E' c mfmt tfmt)) \<noteq>
                 Some ''user cancelled data source configurations'')
       \<and> (SelectPrompt E' tloc ''Data Source'' ''Specify the source for importing data from.''
             (locationSelectors c) = Inr rloc \<and>
           location_switch c rloc \<noteq> CaseAWSS3
           \<longrightarrow> map_option dyn_type (fst (buildDatasourceLocationConfig E' c mloc tloc)) =
                 Some ''*errors.errorString''
               \<and> map_option message (fst (buildDatasourceLocationConfig E' c mloc tloc)) \<noteq>
                 Some ''user cancelled data source configurations'')
       \<and> (last (snd (snd (buildDatarepoSchema E ms ts))) = EvBoolPrompt ''Confirm finalized schema'' \<and>
           BoolPrompt E (butlast (snd (snd (buildDatarepoSchema E ms ts))))
             ''Confirm finalized schema'' = Inr False
           \<longrightarrow> fst (buildDatarepoSchema E ms ts) = Some (errors_New ''aborted finalizing schema''))
       \<and> dyn_type (errors_New ''aborted finalizing schema'') =
           dyn_type (errors_New ''user cancelled data source configurations'')
       \<and> message (errors_New ''aborted finalizing schema'') \<noteq>
           message (errors_New ''user cancelled data source configurations'')
       \<and> (yaml_Marshal_manifest E2 mc = Inr yc \<and>
           BoolPrompt E2 (tc @ [EvPrintln ''Data Source Configurations:'', EvPrintln [], EvPrintln yc])
             ''Confirm and detect schema'' = Inl perr
           \<longrightarrow> confirmDatasourceConfigs E2 mc tc =
                 (Some perr, mc,
                  tc @ [EvPrintln ''Data Source Configurations:'', EvPrintln [], EvPrintln yc,
                        EvBoolPrompt ''Confirm and detect schema'']))
       \<and> (yaml_Marshal_manifest E2 mc = Inr yc \<and>
           BoolPrompt E2 (tc @ [EvPrintln ''Data Source Configurations:'', EvPrintln [], EvPrintln yc])
             ''Confirm and detect schema'' = Inr True
           \<longrightarrow> confirmDatasourceConfigs E2 mc tc =
                 (None, mc,
                  tc @ [EvPrintln ''Data Source Configurations:'', EvPrintln [], EvPrintln yc,
                        EvBoolPrompt ''Confirm and detect schema'']))
       \<and> (last (snd (snd (buildDatarepoSchema E2 mc tc))) = EvBoolPrompt ''Confirm finalized schema'' \<and>
           BoolPrompt E2 (butlast (snd (snd (buildDatarepoSchema E2 mc tc))))
             ''Confirm finalized schema'' = Inl perr
           \<longrightarrow> fst (buildDatarepoSchema E2 mc tc) = Some perr)
       \<and> (SelectPrompt E2 tc ''Data format'' ''Choose how your data is laid out.''
             (allowedSelectors_index c (Value (selectedDatasourceLocation mc))) = Inl perr
           \<longrightarrow> fst (buildDatasourceFormatConfig E2 c mc tc) = Some perr)
       \<and> (SelectPrompt E2 tc ''Data Source'' ''Specify the source for importing data from.''
             (locationSelectors c) = Inl perr
           \<longrightarrow> fst (buildDatasourceLocationConfig E2 c mc tc) = Some perr)"
proof -
  let ?tc = "t @ [EvPrintln ''Data Source Configurations:'', EvPrintln [], EvPrintln y,
                  EvBoolPrompt ''Confirm and detect schema'']"
  have step: "confirmDatasourceConfigs E manifest t =
           (Some (errors_New ''user cancelled data source configurations''), manifest, ?tc)"
    using marshal no by (rule confirm_step_no)
  have run: "Run E c t0 = (Some (errors_New ''user cancelled data source configurations''), ?tc)"
    using steps step by (rule Run_confirm_error)
  have "filter is_sampling t = filter is_sampling t0"
    using location_step_no_sampling[of E c zero_IngestManifest "call_Println [] t0"]
      format_step_no_sampling[of E c m1 tr1] steps
    by (simp add: call_Println_def)
  then have quiet: "filter is_sampling (snd (Run E c t0)) = filter is_sampling t0"
    using run by simp
  have kinds: "dyn_type (errors_New ''aborted finalizing schema'') =
           dyn_type (errors_New ''user cancelled data source configurations'')
       \<and> message (errors_New ''aborted finalizing schema'') \<noteq>
           message (errors_New ''user cancelled data source configurations'')"
    by (simp add: errors_New_def)
  have created: "(SelectPrompt E' tfmt ''Data format'' ''Choose how your data is laid out.''
             (allowedSelectors_index c (Value (selectedDatasourceLocation mfmt))) = Inr rfmt \<and>
           format_switch c (Value rfmt) \<noteq> CaseCommaSeparatedValuesFiles
           \<longrightarrow> map_option dyn_type (fst (buildDatasourceFormatConfig E' c mfmt tfmt)) =
                 Some ''*errors.errorString''
               \<and> map_option message (fst (buildDatasourceFormatConfig E' c mfmt tfmt)) \<noteq>
                 Some ''user cancelled data source configurations'')
       \<and> (SelectPrompt E' tloc ''Data Source'' ''Specify the source for importing data from.''
             (locationSelectors c) = Inr rloc \<and>
           location_switch c rloc \<noteq> CaseAWSS3
           \<longrightarrow> map_option dyn_type (fst (buildDatasourceLocationConfig E' c mloc tloc)) =
                 Some ''*errors.errorString''
               \<and> map_option message (fst (buildDatasourceLocationConfig E' c mloc tloc)) \<noteq>
                 Some ''user cancelled data source configurations'')
       \<and> (last (snd (snd (buildDatarepoSchema E ms ts))) = EvBoolPrompt ''Confirm finalized schema'' \<and>
           BoolPrompt E (butlast (snd (snd (buildDatarepoSchema E ms ts))))
             ''Confirm finalized schema'' = Inr False
           \<longrightarrow> fst (buildDatarepoSchema E ms ts) = Some (errors_New ''aborted finalizing schema''))"
    using format_step_unsupported_error[of E' tfmt c mfmt rfmt]
      location_step_unsupported_error[of E' tloc c rloc mloc]
      schema_step_no[of E ms ts]
    by blast
  have passed: "(yaml_Marshal_manifest E2 mc = Inr yc \<and>
           BoolPrompt E2 (tc @ [EvPrintln ''Data Source Configurations:'', EvPrintln [], EvPrintln yc])
             ''Confirm and detect schema'' = Inl perr
           \<longrightarrow> confirmDatasourceConfigs E2 mc tc =
                 (Some perr, mc,
                  tc @ [EvPrintln ''Data Source Configurations:'', EvPrintln [], EvPrintln yc,
                        EvBoolPrompt ''Confirm and detect schema'']))
       \<and> (yaml_Marshal_manifest E2 mc = Inr yc \<and>
           BoolPrompt E2 (tc @ [EvPrintln ''Data Source Configurations:'', EvPrintln [], EvPrintln yc])
             ''Confirm and detect schema'' = Inr True
           \<longrightarrow> confirmDatasourceConfigs E2 mc tc =
                 (None, mc,
                  tc @ [EvPrintln ''Data Source Configurations:'', EvPrintln [], EvPrintln yc,
                        EvBoolPrompt ''Confirm and detect schema'']))
       \<and> (last (snd (snd (buildDatarepoSchema E2 mc tc))) = EvBoolPrompt ''Confirm finalized schema'' \<and>
           BoolPrompt E2 (butlast (snd (snd (buildDatarepoSchema E2 mc tc))))
             ''Confirm finalized schema'' = Inl perr
           \<longrightarrow> fst (buildDatarepoSchema E2 mc tc) = Some perr)
       \<and> (SelectPrompt E2 tc ''Data format'' ''Choose how your data is laid out.''
             (allowedSelectors_index c (Value (selectedDatasourceLocation mc))) = Inl perr
           \<longrightarrow> fst (buildDatasourceFormatConfig E2 c mc tc) = Some perr)
       \<and> (SelectPrompt E2 tc ''Data Source'' ''Specify the source for importing data from.''
             (locationSelectors c) = Inl perr
           \<longrightarrow> fst (buildDatasourceLocationConfig E2 c mc tc) = Some perr)"
    using confirm_step_prompt_failure[of E2 mc yc tc perr] confirm_step_yes[of E2 mc yc tc]
      schema_step_prompt_failure[of E2 mc tc perr]
      format_step_prompt_failure[of E2 tc c mc perr]
      location_step_prompt_failure[of E2 tc c perr mc]
    by blast
  show ?thesis
    using step run quiet kinds created passed by simp
qed

theorem manifest_cancellation_error_witness:
  "Run user_answers_no example_constants [] =
     (Some (errors_New ''user cancelled data source configurations''),
      [EvPrintln [],
       EvSelectPrompt ''Data Source'' ''Specify the source for importing data from.''
         (locationSelectors example_constants),
       EvTextPrompt ''AWS S3 Bucket'', EvTextPrompt ''AWS S3 Prefix'',
       EvSelectPrompt ''Data format'' ''Choose how your data is laid out.''
         [CommaSeparatedValuesFilesSelector example_constants,
          IndividualBinaryFilesSelector example_constants],
       EvSelectPrompt ''Delimiter'' ''Columns in each file are delimited by this character''
         (csvDelimiterSelectors example_constants),
       EvBoolPrompt ''CSV files contain header row'',
       EvPrintln ''Data Source Configurations:'', EvPrintln [], EvPrintln ''manifest.yaml'',
       EvBoolPrompt ''Confirm and detect schema''])
   \<and> filter is_sampling
        (snd (Run user_answers_no example_constants [])) = []
   \<and> map_option message (fst (buildDatasourceFormatConfig
        user_picks_individual_files
        example_constants example_manifest [])) \<noteq>
       Some ''user cancelled data source configurations''
   \<and> map_option message (fst (buildDatasourceLocationConfig
        user_picks_individual_files
        example_constants zero_IngestManifest [])) \<noteq>
       Some ''user cancelled data source configurations''
   \<and> fst (buildDatarepoSchema user_answers_no
           example_manifest []) =
       Some (errors_New ''aborted finalizing schema'')
   \<and> confirmDatasourceConfigs interrupted_prompts example_manifest [] =
       (Some (errors_New ''^C''), example_manifest,
        [EvPrintln ''Data Source Configurations:'', EvPrintln [], EvPrintln ''manifest.yaml'',
         EvBoolPrompt ''Confirm and detect schema''])
   \<and> confirmDatasourceConfigs example_collaborators example_manifest [] =
       (None, example_manifest,
        [EvPrintln ''Data Source Configurations:'', EvPrintln [], EvPrintln ''manifest.yaml'',
         EvBoolPrompt ''Confirm and detect schema''])
   \<and> fst (buildDatarepoSchema interrupted_prompts example_manifest []) = Some (errors_New ''^C'')
   \<and> fst (buildDatasourceFormatConfig interrupted_prompts example_constants example_manifest []) =
       Some (errors_New ''^C'')
   \<and> fst (buildDatasourceLocationConfig interrupted_prompts example_constants example_manifest []) =
       Some (errors_New ''^C'')"
proof -
  let ?I = interrupted_prompts
  let ?E = user_answers_no
  let ?E' = user_picks_individual_files
  let ?c = example_constants
  let ?r1 = "buildDatasourceLocationConfig ?E ?c zero_IngestManifest (call_Println [] [])"
  let ?r2 = "buildDatasourceFormatConfig ?E ?c (fst (snd ?r1)) (snd (snd ?r1))"
  let ?m = "fst (snd ?r2)" and ?t = "snd (snd ?r2)"
  have r1: "?r1 = (None, fst (snd ?r1), snd (snd ?r1))"
    by (simp add: step_defs call_defs example_defs user_answers_no_def user_picks_individual_files_def selector_defs)
  have r2: "?r2 = (None, ?m, ?t)"
    by (simp add: step_defs call_defs example_defs user_answers_no_def user_picks_individual_files_def selector_defs)
  have t: "?t = [EvPrintln [],
       EvSelectPrompt ''Data Source'' ''Specify the source for importing data from.''
         (locationSelectors example_constants),
       EvTextPrompt ''AWS S3 Bucket'', EvTextPrompt ''AWS S3 Prefix'',
       EvSelectPrompt ''Data format'' ''Choose how your data is laid out.''
         [CommaSeparatedValuesFilesSelector example_constants,
          IndividualBinaryFilesSelector example_constants],
       EvSelectPrompt ''Delimiter'' ''Columns in each file are delimited by this character''
         (csvDelimiterSelectors example_constants),
       EvBoolPrompt ''CSV files contain header row'']"
    by (simp add: step_defs call_defs example_defs user_answers_no_def user_picks_individual_files_def selector_defs)
  have marshal: "yaml_Marshal_manifest ?E ?m = Inr ''manifest.yaml''"
    by (simp add: example_defs user_answers_no_def user_picks_individual_files_def)
  have no: "BoolPrompt ?E (?t @ [EvPrintln ''Data Source Configurations:'', EvPrintln [],
                                 EvPrintln ''manifest.yaml''])
               ''Confirm and detect schema'' = Inr False"
    by (simp add: user_answers_no_def)
  have fmt: "SelectPrompt ?E' [] ''Data format'' ''Choose how your data is laid out.''
             (allowedSelectors_index ?c (Value (selectedDatasourceLocation example_manifest))) =
             Inr (IndividualBinaryFilesSelector ?c) \<and>
           format_switch ?c (Value (IndividualBinaryFilesSelector ?c)) \<noteq> CaseCommaSeparatedValuesFiles"
    by (simp add: format_switch_def user_picks_individual_files_def)
  have loc: "SelectPrompt ?E' [] ''Data Source'' ''Specify the source for importing data from.''
             (locationSelectors ?c) = Inr (IndividualBinaryFilesSelector ?c) \<and>
           location_switch ?c (IndividualBinaryFilesSelector ?c) \<noteq> CaseAWSS3"
    by (simp add: location_switch_def selector_defs user_picks_individual_files_def)
  have sch: "last (snd (snd (buildDatarepoSchema ?E example_manifest []))) =
               EvBoolPrompt ''Confirm finalized schema'' \<and>
             BoolPrompt ?E (butlast (snd (snd (buildDatarepoSchema ?E example_manifest []))))
               ''Confirm finalized schema'' = Inr False"
    by (simp add: step_defs call_defs example_defs user_answers_no_def user_picks_individual_files_def)
  have pm: "yaml_Marshal_manifest ?I example_manifest = Inr ''manifest.yaml''"
    and pym: "yaml_Marshal_manifest example_collaborators example_manifest = Inr ''manifest.yaml''"
    by (simp_all add: interrupted_prompts_def example_collaborators_def)
  have pb: "BoolPrompt ?I ([] @ [EvPrintln ''Data Source Configurations:'', EvPrintln [],
                                 EvPrintln ''manifest.yaml''])
              ''Confirm and detect schema'' = Inl (errors_New ''^C'')"
    by (simp add: interrupted_prompts_def)
  have py: "BoolPrompt example_collaborators ([] @ [EvPrintln ''Data Source Configurations:'',
                                 EvPrintln [], EvPrintln ''manifest.yaml''])
              ''Confirm and detect schema'' = Inr True"
    by (simp add: example_collaborators_def)
  have ps: "last (snd (snd (buildDatarepoSchema ?I example_manifest []))) =
               EvBoolPrompt ''Confirm finalized schema'' \<and>
             BoolPrompt ?I (butlast (snd (snd (buildDatarepoSchema ?I example_manifest []))))
               ''Confirm finalized schema'' = Inl (errors_New ''^C'')"
    by (simp add: step_defs call_defs example_defs interrupted_prompts_def)
  have pf: "SelectPrompt ?I [] ''Data format'' ''Choose how your data is laid out.''
             (allowedSelectors_index ?c (Value (selectedDatasourceLocation example_manifest))) =
             Inl (errors_New ''^C'')"
    and pl: "SelectPrompt ?I [] ''Data Source'' ''Specify the source for importing data from.''
             (locationSelectors ?c) = Inl (errors_New ''^C'')"
    by (simp_all add: interrupted_prompts_def)
  note inst = manifest_cancellation_error [OF r1 r2 marshal no,
        where E' = ?E' and tfmt = "[]" and mfmt = example_manifest
          and rfmt = "IndividualBinaryFilesSelector ?c" and tloc = "[]"
          and rloc = "IndividualBinaryFilesSelector ?c" and mloc = zero_IngestManifest
          and ms = example_manifest and ts = "[]" and mc = example_manifest and tc = "[]"
          and yc = "''manifest.yaml''"]
  have failing: "confirmDatasourceConfigs ?I example_manifest [] =
       (Some (errors_New ''^C''), example_manifest,
        [] @ [EvPrintln ''Data Source Configurations:'', EvPrintln [], EvPrintln ''manifest.yaml'',
         EvBoolPrompt ''Confirm and detect schema''])
     \<and> fst (buildDatarepoSchema ?I example_manifest []) = Some (errors_New ''^C'')
     \<and> fst (buildDatasourceFormatConfig ?I ?c example_manifest []) = Some (errors_New ''^C'')
     \<and> fst (buildDatasourceLocationConfig ?I ?c example_manifest []) = Some (errors_New ''^C'')"
    using inst [where ?E2.0 = ?I and perr = "errors_New ''^C''"] pm pb ps pf pl by blast
  have yes: "confirmDatasourceConfigs example_collaborators example_manifest [] =
       (None, example_manifest,
        [] @ [EvPrintln ''Data Source Configurations:'', EvPrintln [], EvPrintln ''manifest.yaml'',
         EvBoolPrompt ''Confirm and detect schema''])"
    using inst [where ?E2.0 = example_collaborators and perr = "errors_New ''^C''"] pym py by blast
  have main: "Run ?E ?c [] =
       (Some (errors_New ''user cancelled data source configurations''),
        ?t @ [EvPrintln ''Data Source Configurations:'', EvPrintln [], EvPrintln ''manifest.yaml'',
              EvBoolPrompt ''Confirm and detect schema''])
     \<and> filter is_sampling (snd (Run ?E ?c [])) = filter is_sampling []
     \<and> map_option message (fst (buildDatasourceFormatConfig ?E' ?c example_manifest [])) \<noteq>
       Some ''user cancelled data source configurations''
     \<and> map_option message (fst (buildDatasourceLocationConfig ?E' ?c zero_IngestManifest [])) \<noteq>
       Some ''user cancelled data source configurations''
     \<and> fst (buildDatarepoSchema ?E example_manifest []) =
       Some (errors_New ''aborted finalizing schema'')"
    using inst [where ?E2.0 = ?I and perr = "errors_New ''^C''"] fmt loc sch by blast
  show ?thesis
    using main failing yes unfolding t by simp
qed

theorem cancellation_distinguishable_counterexample:
  "confirmDatasourceConfigs
     bool_prompt_fails_as_cancelled
     example_manifest [] =
   confirmDatasourceConfigs user_answers_no
     example_manifest []
   \<and> fst (confirmDatasourceConfigs user_answers_no
           example_manifest []) =
       Some (GoError ''*errors.errorString'' ''user cancelled data source configurations'')
   \<and> fst (buildDatarepoSchema user_answers_no
           example_manifest []) =
       Some (GoError ''*errors.errorString'' ''aborted finalizing schema'')
   \<and> fst (buildDatasourceFormatConfig
           user_picks_individual_files
           example_constants example_manifest []) =
       Some (GoError ''*errors.errorString'' ''individual binary files not yet supported'')"
  by (simp add: step_defs call_defs example_defs user_answers_no_def bool_prompt_fails_as_cancelled_def user_picks_individual_files_def selector_defs errors_New_def)

section \<open>The driver\<close>

lemma location_step_extends_trace:
  "take (length t) (snd (snd (buildDatasourceLocationConfig E c manifest t))) = t"
  by (simp add: buildDatasourceLocationConfig_def buildDatasourceLocationConfigForSelectedLocation_def
        NewAWSS3LocationConfigFromPrompts_def call_defs
        split: sum.splits location_case.splits)

lemma format_step_extends_trace:
  "take (length t) (snd (snd (buildDatasourceFormatConfig E c manifest t))) = t"
  by (simp add: buildDatasourceFormatConfig_def NewCSVFilesFormatConfigFromPrompts_def call_defs Let_def
        split: sum.splits format_case.splits)

lemma confirm_step_extends_trace:
  "take (length t) (snd (snd (confirmDatasourceConfigs E manifest t))) = t"
  by (simp add: confirmDatasourceConfigs_def call_defs Let_def split: sum.splits)

lemma schema_step_extends_trace:
  "take (length t) (snd (snd (buildDatarepoSchema E manifest t))) = t"
  by (simp add: buildDatarepoSchema_def call_defs Let_def split: sum.splits)

lemma steps_keep_earlier_events:
  "(let r1 = buildDatasourceLocationConfig E c zero_IngestManifest (t @ [EvPrintln []]);
        r2 = buildDatasourceFormatConfig E c (fst (snd r1)) (snd (snd r1));
        r3 = confirmDatasourceConfigs E (fst (snd r2)) (snd (snd r2));
        r4 = buildDatarepoSchema E (fst (snd r3)) (snd (snd r3))
    in take (length (t @ [EvPrintln []])) (snd (snd r1)) = t @ [EvPrintln []]
       \<and> take (length (snd (snd r1))) (snd (snd r2)) = snd (snd r1)
       \<and> take (length (snd (snd r2))) (snd (snd r3)) = snd (snd r2)
       \<and> take (length (snd (snd r3))) (snd (snd r4)) = snd (snd r3))"
  unfolding Let_def
  using location_step_extends_trace format_step_extends_trace confirm_step_extends_trace
    schema_step_extends_trace
  by blast

text \<open>
  Claim C8. \<open>Run\<close> is the sequential composition of the location step, the format
  step, the confirmation step and the schema step, in this order, on the zero manifest:
  a step runs only when every step before it returned the nil error, and the first
  error a step returns is the result of the run, unchanged, with the trace ending where
  that step ended. Each step starts from the manifest and the trace the step before it
  left, and only adds to that trace.
\<close>

theorem Run_steps_in_order_first_error_ends_run:
  "Run E c t =
     run_steps [buildDatasourceLocationConfig E c, buildDatasourceFormatConfig E c,
                confirmDatasourceConfigs E, buildDatarepoSchema E]
       zero_IngestManifest (t @ [EvPrintln []])
   \<and> Run E c t =
      (let r1 = buildDatasourceLocationConfig E c zero_IngestManifest (t @ [EvPrintln []]);
           r2 = buildDatasourceFormatConfig E c (fst (snd r1)) (snd (snd r1));
           r3 = confirmDatasourceConfigs E (fst (snd r2)) (snd (snd r2));
           r4 = buildDatarepoSchema E (fst (snd r3)) (snd (snd r3))
       in if fst r1 \<noteq> None then (fst r1, snd (snd r1))
          else if fst r2 \<noteq> None then (fst r2, snd (snd r2))
          else if fst r3 \<noteq> None then (fst r3, snd (snd r3))
          else (fst r4, snd (snd r4)))
   \<and> (let r1 = buildDatasourceLocationConfig E c zero_IngestManifest (t @ [EvPrintln []]);
           r2 = buildDatasourceFormatConfig E c (fst (snd r1)) (snd (snd r1));
           r3 = confirmDatasourceConfigs E (fst (snd r2)) (snd (snd r2));
           r4 = buildDatarepoSchema E (fst (snd r3)) (snd (snd r3))
       in take (length (t @ [EvPrintln []])) (snd (snd r1)) = t @ [EvPrintln []]
          \<and> take (length (snd (snd r1))) (snd (snd r2)) = snd (snd r1)
          \<and> take (length (snd (snd r2))) (snd (snd r3)) = snd (snd r2)
          \<and> take (length (snd (snd r3))) (snd (snd r4)) = snd (snd r3))"
proof (intro conjI)
  show "let r1 = buildDatasourceLocationConfig E c zero_IngestManifest (t @ [EvPrintln []]);
           r2 = buildDatasourceFormatConfig E c (fst (snd r1)) (snd (snd r1));
           r3 = confirmDatasourceConfigs E (fst (snd r2)) (snd (snd r2));
           r4 = buildDatarepoSchema E (fst (snd r3)) (snd (snd r3))
       in take (length (t @ [EvPrintln []])) (snd (snd r1)) = t @ [EvPrintln []]
          \<and> take (length (snd (snd r1))) (snd (snd r2)) = snd (snd r1)
          \<and> take (length (snd (snd r2))) (snd (snd r3)) = snd (snd r2)
          \<and> take (length (snd (snd r3))) (snd (snd r4)) = snd (snd r3)"
    by (rule steps_keep_earlier_events)
  show "Run E c t =
     run_steps [buildDatasourceLocationConfig E c, buildDatasourceFormatConfig E c,
                confirmDatasourceConfigs E, buildDatarepoSchema E]
       zero_IngestManifest (t @ [EvPrintln []])"
    by (simp add: Run_run_steps call_Println_def)
  show "Run E c t =
      (let r1 = buildDatasourceLocationConfig E c zero_IngestManifest (t @ [EvPrintln []]);
           r2 = buildDatasourceFormatConfig E c (fst (snd r1)) (snd (snd r1));
           r3 = confirmDatasourceConfigs E (fst (snd r2)) (snd (snd r2));
           r4 = buildDatarepoSchema E (fst (snd r3)) (snd (snd r3))
       in if fst r1 \<noteq> None then (fst r1, snd (snd r1))
          else if fst r2 \<noteq> None then (fst r2, snd (snd r2))
          else if fst r3 \<noteq> None then (fst r3, snd (snd r3))
          else (fst r4, snd (snd r4)))"
    by (simp add: Run_def call_Println_def Let_def split: prod.splits option.splits)
qed

end
